theory Spec2Isabelle
  imports Main
begin

section \<open>Ghost: a chat assistant with a rolling session window and a long-term memory\<close>

text \<open>
  The development embeds the two variants of the assistant: the console variant
  (\<^verbatim>\<open>ghost.py\<close>: classes \<^verbatim>\<open>GhostMemory\<close>, \<^verbatim>\<open>UserProfile\<close>, \<^verbatim>\<open>Ghost\<close> with one
  session list) and the HTTP variant (\<^verbatim>\<open>ghost_web.py\<close>: the same classes, with a
  dictionary of sessions keyed by session id). Methods are functions that take the
  object's state and return the new state; a raised exception is the \<open>Inl\<close> branch of
  a sum.

  Three things the program calls are not part of its source and are supplied from
  outside:
  \<^item> the completion service (\<^verbatim>\<open>client.messages.create\<close>): a parameter that returns the
    texts of the reply's content blocks, or fails with a message;
  \<^item> the similarity search of the vector collection (\<^verbatim>\<open>Collection.query\<close>): a
    parameter that returns a query result, or fails with a message;
  \<^item> the wall clock (\<^verbatim>\<open>datetime.datetime.now()\<close>) and \<^verbatim>\<open>json.dumps\<close>: parameters.

  Characters of a \<open>string\<close> stand for the characters Python's \<^verbatim>\<open>str\<close> counts.
  JSON numbers with a fraction are left out of the profile's values.
\<close>

subsection \<open>Python values\<close>

datatype error =
    KeyError string
  | TypeError
  | IndexError
  | SearchFailure string
  | CompletionFailure string

datatype json =
    JNull
  | JBool bool
  | JInt int
  | JStr string
  | JArr "json list"
  | JObj "(string \<times> json) list"

type_synonym dict = "string \<rightharpoonup> json"

definition nl :: string where
  "nl = [CHR 0x0A]"

text \<open>\<^verbatim>\<open>str(n)\<close> for an integer: its decimal digits, with a minus sign when negative.\<close>

definition digit_char :: "nat \<Rightarrow> char" where
  "digit_char d = ''0123456789'' ! d"

fun str_nat :: "nat \<Rightarrow> string" where
  "str_nat n = (if n < 10 then [digit_char n] else str_nat (n div 10) @ [digit_char (n mod 10)])"

declare str_nat.simps [simp del]

definition str_int :: "int \<Rightarrow> string" where
  "str_int i = (if i < 0 then CHR ''-'' # str_nat (nat (- i)) else str_nat (nat i))"

text \<open>An f-string field holding a value that may be \<^verbatim>\<open>None\<close>.\<close>

definition fstr :: "string option \<Rightarrow> string" where
  "fstr v = (case v of None \<Rightarrow> ''None'' | Some s \<Rightarrow> s)"

text \<open>\<^verbatim>\<open>sep.join(parts)\<close>.\<close>

fun join :: "string \<Rightarrow> string list \<Rightarrow> string" where
  "join sep [] = []"
| "join sep [x] = x"
| "join sep (x # y # ys) = x @ sep @ join sep (y # ys)"

text \<open>\<^verbatim>\<open>v + 1\<close> on a JSON value: integers add, a boolean counts as 0 or 1, anything
  else raises \<^verbatim>\<open>TypeError\<close>.\<close>

definition py_add1 :: "json \<Rightarrow> error + json" where
  "py_add1 v =
     (case v of
        JInt n \<Rightarrow> Inr (JInt (n + 1))
      | JBool b \<Rightarrow> Inr (JInt ((if b then 1 else 0) + 1))
      | _ \<Rightarrow> Inl TypeError)"

text \<open>The number a JSON value counts as, when it is one.\<close>

definition num_of :: "json \<Rightarrow> int option" where
  "num_of v =
     (case v of
        JInt n \<Rightarrow> Some n
      | JBool b \<Rightarrow> Some (if b then 1 else 0)
      | _ \<Rightarrow> None)"

subsection \<open>The clock and the outside services\<close>

text \<open>
  One reading of \<^verbatim>\<open>datetime.datetime.now()\<close>, as the two texts the program makes of it:
  \<^verbatim>\<open>f"{now.timestamp()}"\<close> and \<^verbatim>\<open>now.isoformat()\<close>. A \<open>clock\<close> gives the successive
  readings made during one call, numbered from 0.
\<close>

record clock_reading =
  now_timestamp :: string
  now_isoformat :: string

type_synonym clock = "nat \<Rightarrow> clock_reading"

definition later :: "nat \<Rightarrow> clock \<Rightarrow> clock" where
  "later k now = (\<lambda>i. now (i + k))"

record message =
  role :: string
  content :: string

subsection \<open>The vector collection\<close>

text \<open>
  Modelled from the spec: the collection of the vector store (the \<^verbatim>\<open>chromadb\<close> package,
  which is not part of the repository's source). Section 4.1 of the specification makes
  every write append-only and Section 6 makes the search return a ranked list of
  documents with their metadata. A collection is the list of the entries added so far,
  \<open>collection_add\<close> (\<^verbatim>\<open>Collection.add\<close> with one document) appends one entry and
  \<open>count\<close> (\<^verbatim>\<open>Collection.count\<close>) is the number of entries. What the package does
  with a repeated id is outside this model.
\<close>

type_synonym metadata = "string \<rightharpoonup> string"

record entry =
  entry_id :: string
  document :: string
  entry_metadata :: metadata

type_synonym collection = "entry list"

definition collection_add :: "string \<Rightarrow> metadata \<Rightarrow> string \<Rightarrow> collection \<Rightarrow> collection" where
  "collection_add doc meta ident c = c @ [\<lparr>entry_id = ident, document = doc, entry_metadata = meta\<rparr>]"

definition count :: "collection \<Rightarrow> nat" where
  "count c = length c"

text \<open>
  The result of \<^verbatim>\<open>Collection.query\<close> for one query text: under \<^verbatim>\<open>'documents'\<close> and
  \<^verbatim>\<open>'metadatas'\<close> a list with one inner list per query text, or \<^verbatim>\<open>None\<close>.
\<close>

record query_result =
  documents :: "string list list option"
  metadatas :: "metadata list list option"

type_synonym search = "collection \<Rightarrow> string \<Rightarrow> int \<Rightarrow> string + query_result"

text \<open>
  The services one turn uses: \<^verbatim>\<open>json.dumps(_, indent=2)\<close>, the collection's query and the
  completion call (system prompt and messages in; the texts of the content blocks out).
\<close>

record env =
  dumps :: "dict \<Rightarrow> string"
  query :: search
  complete :: "string \<Rightarrow> message list \<Rightarrow> string + string list"

subsection \<open>GhostMemory\<close>

record GhostMemory =
  conversations :: collection
  knowledge :: collection

record recalled =
  mem_content :: string
  mem_timestamp :: "string option"
  mem_rating :: "string option"

text \<open>\<^verbatim>\<open>str(rating) if rating else "unrated"\<close>: \<^verbatim>\<open>None\<close> and 0 are both falsy.\<close>

definition rating_text :: "int option \<Rightarrow> string" where
  "rating_text rating =
     (case rating of
        None \<Rightarrow> ''unrated''
      | Some r \<Rightarrow> if r = 0 then ''unrated'' else str_int r)"

text \<open>\<^verbatim>\<open>ghost.py\<close>, \<^verbatim>\<open>GhostMemory.remember_conversation\<close>; returns the id.\<close>

definition remember_conversation ::
    "clock \<Rightarrow> string \<Rightarrow> string \<Rightarrow> int option \<Rightarrow> GhostMemory \<Rightarrow> string \<times> GhostMemory" where
  "remember_conversation now user_msg ghost_msg rating self =
     (let memory_id = ''mem_'' @ now_timestamp (now 0);
          meta = [''timestamp'' \<mapsto> now_isoformat (now 1),
                  ''rating'' \<mapsto> rating_text rating,
                  ''preview'' \<mapsto> take 100 user_msg];
          full_exchange = ''User: '' @ user_msg @ nl @ nl @ ''Ghost: '' @ ghost_msg
      in (memory_id,
          self\<lparr>conversations := collection_add full_exchange meta memory_id (conversations self)\<rparr>))"

text \<open>\<^verbatim>\<open>ghost_web.py\<close>, \<^verbatim>\<open>GhostMemory.add_conversation\<close>; returns the id.\<close>

definition add_conversation ::
    "clock \<Rightarrow> string \<Rightarrow> string \<Rightarrow> int option \<Rightarrow> GhostMemory \<Rightarrow> string \<times> GhostMemory" where
  "add_conversation now user_msg ai_msg rating self =
     (let conv_id = ''conv_'' @ now_timestamp (now 0);
          meta = [''timestamp'' \<mapsto> now_isoformat (now 1),
                  ''rating'' \<mapsto> rating_text rating,
                  ''user_message'' \<mapsto> take 500 user_msg];
          full_text = ''User: '' @ user_msg @ nl @ ''Ghost: '' @ ai_msg
      in (conv_id,
          self\<lparr>conversations := collection_add full_text meta conv_id (conversations self)\<rparr>))"

text \<open>
  \<^verbatim>\<open>GhostMemory.recall\<close> (\<^verbatim>\<open>ghost.py\<close>) and \<^verbatim>\<open>GhostMemory.search_memory\<close>
  (\<^verbatim>\<open>ghost_web.py\<close>) have the same body. The empty collection is answered before the
  query is issued. \<^verbatim>\<open>results['metadatas'][0]\<close> raises on \<^verbatim>\<open>None\<close> and on the empty
  list; \<^verbatim>\<open>zip\<close> stops at the shorter list.
\<close>

definition memories_of :: "string list \<Rightarrow> metadata list \<Rightarrow> recalled list" where
  "memories_of docs metas =
     map (\<lambda>(doc, meta). \<lparr>mem_content = doc, mem_timestamp = meta ''timestamp'',
                           mem_rating = meta ''rating''\<rparr>)
       (zip docs metas)"

definition recall :: "search \<Rightarrow> GhostMemory \<Rightarrow> string \<Rightarrow> int \<Rightarrow> error + recalled list" where
  "recall qry self query_text n_results =
     (if count (conversations self) = 0 then Inr []
      else
        case qry (conversations self) query_text
               (min n_results (int (count (conversations self)))) of
          Inl m \<Rightarrow> Inl (SearchFailure m)
        | Inr results \<Rightarrow>
            (case documents results of
               None \<Rightarrow> Inr []
             | Some [] \<Rightarrow> Inr []
             | Some (docs0 # _) \<Rightarrow>
                 if docs0 = [] then Inr []
                 else
                   (case metadatas results of
                      None \<Rightarrow> Inl TypeError
                    | Some [] \<Rightarrow> Inl IndexError
                    | Some (metas0 # _) \<Rightarrow> Inr (memories_of docs0 metas0))))"

definition search_memory :: "search \<Rightarrow> GhostMemory \<Rightarrow> string \<Rightarrow> int \<Rightarrow> error + recalled list" where
  "search_memory qry self query_text n_results =
     (if count (conversations self) = 0 then Inr []
      else
        case qry (conversations self) query_text
               (min n_results (int (count (conversations self)))) of
          Inl m \<Rightarrow> Inl (SearchFailure m)
        | Inr results \<Rightarrow>
            (case documents results of
               None \<Rightarrow> Inr []
             | Some [] \<Rightarrow> Inr []
             | Some (docs0 # _) \<Rightarrow>
                 if docs0 = [] then Inr []
                 else
                   (case metadatas results of
                      None \<Rightarrow> Inl TypeError
                    | Some [] \<Rightarrow> Inl IndexError
                    | Some (metas0 # _) \<Rightarrow> Inr (memories_of docs0 metas0))))"

text \<open>\<^verbatim>\<open>GhostMemory.learn\<close> (\<^verbatim>\<open>ghost.py\<close>) and \<^verbatim>\<open>GhostMemory.add_knowledge\<close>
  (\<^verbatim>\<open>ghost_web.py\<close>).\<close>

definition learn :: "clock \<Rightarrow> string \<Rightarrow> string \<Rightarrow> GhostMemory \<Rightarrow> GhostMemory" where
  "learn now insight category self =
     (let learn_id = ''learn_'' @ now_timestamp (now 0)
      in self\<lparr>knowledge :=
           collection_add insight
             [''category'' \<mapsto> category, ''timestamp'' \<mapsto> now_isoformat (now 1)]
             learn_id (knowledge self)\<rparr>)"

definition add_knowledge :: "clock \<Rightarrow> string \<Rightarrow> string \<Rightarrow> GhostMemory \<Rightarrow> GhostMemory" where
  "add_knowledge now knowledge_text category self =
     (let know_id = ''know_'' @ now_timestamp (now 0)
      in self\<lparr>knowledge :=
           collection_add knowledge_text
             [''category'' \<mapsto> category, ''timestamp'' \<mapsto> now_isoformat (now 1)]
             know_id (knowledge self)\<rparr>)"

subsection \<open>UserProfile\<close>

text \<open>
  The profile dictionary and the file at \<^verbatim>\<open>profile_path\<close> (\<open>None\<close> while it does not
  exist). \<^verbatim>\<open>save\<close> overwrites the file with the dictionary.
\<close>

record UserProfile =
  profile :: dict
  profile_file :: "dict option"

definition save :: "UserProfile \<Rightarrow> UserProfile" where
  "save self = self\<lparr>profile_file := Some (profile self)\<rparr>"

text \<open>\<^verbatim>\<open>ghost.py\<close>, \<^verbatim>\<open>UserProfile.load\<close>.\<close>

definition load :: "clock \<Rightarrow> dict option \<Rightarrow> dict" where
  "load now file =
     (case file of
        Some d \<Rightarrow> d
      | None \<Rightarrow>
          [''name'' \<mapsto> JStr ''User'',
           ''preferences'' \<mapsto> JObj [],
           ''interests'' \<mapsto> JArr [],
           ''goals'' \<mapsto> JArr [],
           ''communication_style'' \<mapsto> JStr ''adaptive'',
           ''total_chats'' \<mapsto> JInt 0,
           ''created'' \<mapsto> JStr (now_isoformat (now 0))])"

text \<open>\<^verbatim>\<open>ghost_web.py\<close>, \<^verbatim>\<open>UserProfile.load_profile\<close>.\<close>

definition load_profile :: "clock \<Rightarrow> dict option \<Rightarrow> dict" where
  "load_profile now file =
     (case file of
        Some d \<Rightarrow> d
      | None \<Rightarrow>
          [''name'' \<mapsto> JStr ''User'',
           ''preferences'' \<mapsto> JObj [],
           ''communication_style'' \<mapsto> JStr ''adaptive'',
           ''expertise_areas'' \<mapsto> JArr [],
           ''goals'' \<mapsto> JArr [],
           ''total_chats'' \<mapsto> JInt 0,
           ''created_at'' \<mapsto> JStr (now_isoformat (now 0))])"

text \<open>\<^verbatim>\<open>ghost.py\<close>, \<^verbatim>\<open>UserProfile.add_chat\<close>: \<^verbatim>\<open>self.profile["total_chats"] += 1\<close> raises
  \<^verbatim>\<open>KeyError\<close> when the key is missing; then nothing is written.\<close>

definition add_chat :: "UserProfile \<Rightarrow> error + UserProfile" where
  "add_chat self =
     (case profile self ''total_chats'' of
        None \<Rightarrow> Inl (KeyError ''total_chats'')
      | Some v \<Rightarrow>
          (case py_add1 v of
             Inl e \<Rightarrow> Inl e
           | Inr v' \<Rightarrow> Inr (save (self\<lparr>profile := (profile self)(''total_chats'' \<mapsto> v')\<rparr>))))"

text \<open>\<^verbatim>\<open>ghost_web.py\<close>, \<^verbatim>\<open>UserProfile.update_interaction_count\<close>:
  \<^verbatim>\<open>self.profile.get("total_chats", 0) + 1\<close>.\<close>

definition update_interaction_count :: "UserProfile \<Rightarrow> error + UserProfile" where
  "update_interaction_count self =
     (case py_add1 (case profile self ''total_chats'' of None \<Rightarrow> JInt 0 | Some v \<Rightarrow> v) of
        Inl e \<Rightarrow> Inl e
      | Inr v' \<Rightarrow> Inr (save (self\<lparr>profile := (profile self)(''total_chats'' \<mapsto> v')\<rparr>)))"

subsection \<open>Ghost, console variant\<close>

record Ghost =
  memory :: GhostMemory
  user_profile :: UserProfile
  session :: "message list"

definition persona :: string where
  "persona =
     ''You are Ghost, a self-improving AI assistant. '' @ nl @ nl @
     ''Your unique capabilities:'' @ nl @
     ''- You remember EVERYTHING from past conversations'' @ nl @
     ''- You learn the user's preferences and adapt to them'' @ nl @
     ''- You get better with every interaction'' @ nl @
     ''- You have access to the user's profile and conversation history'' @ nl @ nl @
     ''Be helpful, adaptive, and personal. Use the context provided to give increasingly tailored responses.''"

text \<open>\<^verbatim>\<open>ghost.py\<close>, \<^verbatim>\<open>Ghost._build_context\<close>: the profile block, then, when anything was
  recalled, a header and one block per memory, numbered from 1, with its rating and the
  first 400 characters of its content.\<close>

definition memory_block :: "nat \<times> recalled \<Rightarrow> string" where
  "memory_block im =
     nl @ ''[Memory '' @ str_nat (fst im) @ ''] [Rating: '' @ fstr (mem_rating (snd im)) @ '']''
        @ nl @ take 400 (mem_content (snd im))"

definition build_context :: "env \<Rightarrow> Ghost \<Rightarrow> string \<Rightarrow> error + string" where
  "build_context ex self user_msg =
     (case recall (query ex) (memory self) user_msg 3 of
        Inl e \<Rightarrow> Inl e
      | Inr memories \<Rightarrow>
          Inr (join nl
                 ([''USER PROFILE:'' @ nl @ dumps ex (profile (user_profile self))] @
                  (if memories = [] then []
                   else (nl @ ''RELEVANT MEMORIES:'') # map memory_block (enumerate 1 memories)))))"

text \<open>\<^verbatim>\<open>session[-20:]\<close> when the list is longer than 20.\<close>

definition keep_last_20 :: "message list \<Rightarrow> message list" where
  "keep_last_20 s = (if length s > 20 then drop (length s - 20) s else s)"

text \<open>\<^verbatim>\<open>ghost.py\<close>, \<^verbatim>\<open>Ghost.talk\<close>. The result pairs what the call returns or raises with
  the object's state afterwards.\<close>

definition talk :: "env \<Rightarrow> string \<Rightarrow> Ghost \<Rightarrow> (error + string) \<times> Ghost" where
  "talk ex user_message self =
     (case add_chat (user_profile self) of
        Inl e \<Rightarrow> (Inl e, self)
      | Inr p \<Rightarrow>
          let self1 = self\<lparr>user_profile := p\<rparr> in
          (case build_context ex self1 user_message of
             Inl e \<Rightarrow> (Inl e, self1)
           | Inr context \<Rightarrow>
               let system = persona @ nl @ nl @ ''CONTEXT:'' @ nl @ context;
                   messages = session self1 @ [\<lparr>role = ''user'', content = user_message\<rparr>]
               in
               (case complete ex system messages of
                  Inl m \<Rightarrow> (Inl (CompletionFailure m), self1)
                | Inr [] \<Rightarrow> (Inl IndexError, self1)
                | Inr (ghost_response # _) \<Rightarrow>
                    (Inr ghost_response,
                     self1\<lparr>session :=
                       keep_last_20
                         (session self1 @
                          [\<lparr>role = ''user'', content = user_message\<rparr>,
                           \<lparr>role = ''assistant'', content = ghost_response\<rparr>])\<rparr>))))"

text \<open>The star of the console's replies (U+2B50 in UTF-8).\<close>

definition star :: string where
  "star = [CHR 0xE2, CHR 0xAD, CHR 0x90]"

text \<open>\<^verbatim>\<open>ghost.py\<close>, \<^verbatim>\<open>Ghost.rate\<close>. \<^verbatim>\<open>remember_conversation\<close> makes the first two clock
  readings of the call, \<^verbatim>\<open>learn\<close> the next two.\<close>

definition rate :: "clock \<Rightarrow> int \<Rightarrow> Ghost \<Rightarrow> string \<times> Ghost" where
  "rate now rating self =
     (if length (session self) \<ge> 2 then
        let user_msg = content (session self ! (length (session self) - 2));
            ghost_msg = content (session self ! (length (session self) - 1));
            m1 = snd (remember_conversation now user_msg ghost_msg (Some rating) (memory self))
        in
        if rating \<ge> 4 then
          (star @ '' Rated '' @ str_int rating @ ''/5 - I'll remember what worked!'',
           self\<lparr>memory :=
             learn (later 2 now) (''User appreciated: '' @ take 300 ghost_msg)
               ''good_response'' m1\<rparr>)
        else
          (star @ '' Rated '' @ str_int rating @ ''/5 - I'll learn from this.'',
           self\<lparr>memory := m1\<rparr>)
      else (''No response to rate yet.'', self))"

text \<open>\<^verbatim>\<open>ghost.py\<close>, \<^verbatim>\<open>Ghost.reset_session\<close>.\<close>

definition reset_session :: "Ghost \<Rightarrow> string \<times> Ghost" where
  "reset_session self =
     (''Session cleared. My long-term memory remains intact.'', self\<lparr>session := []\<rparr>)"

text \<open>A console command with what the outside supplies while it runs, and the state
  after a sequence of commands.\<close>

datatype command =
    Talk env string
  | Rate clock int
  | Reset

fun step :: "Ghost \<Rightarrow> command \<Rightarrow> Ghost" where
  "step g (Talk ex user_message) = snd (talk ex user_message g)"
| "step g (Rate now rating) = snd (rate now rating g)"
| "step g Reset = snd (reset_session g)"

definition run :: "Ghost \<Rightarrow> command list \<Rightarrow> Ghost" where
  "run g cmds = foldl step g cmds"

subsection \<open>Ghost, HTTP variant\<close>

record WebGhost =
  web_memory :: GhostMemory
  web_profile :: UserProfile
  sessions :: "string \<rightharpoonup> message list"

definition system_prompt :: string where
  "system_prompt =
     ''You are Ghost, a self-improving AI assistant. You have access to:'' @ nl @
     ''1. User profile and preferences'' @ nl @
     ''2. Past conversation history'' @ nl @
     ''3. Learned knowledge over time'' @ nl @ nl @
     ''Your goal is to provide increasingly personalized and helpful responses as you learn more about the user.'' @ nl @
     ''Be adaptive, remember context, and continuously improve.''"

text \<open>\<^verbatim>\<open>ghost_web.py\<close>, \<^verbatim>\<open>Ghost._build_context\<close>: each memory with its number, its
  timestamp and the first 300 characters of its content, followed by three dots.\<close>

definition interaction_block :: "nat \<times> recalled \<Rightarrow> string" where
  "interaction_block im =
     nl @ str_nat (fst im) @ ''. ['' @ fstr (mem_timestamp (snd im)) @ ''] ''
        @ take 300 (mem_content (snd im)) @ ''...''"

definition web_build_context :: "env \<Rightarrow> WebGhost \<Rightarrow> string \<Rightarrow> error + string" where
  "web_build_context ex self user_message =
     (case search_memory (query ex) (web_memory self) user_message 3 of
        Inl e \<Rightarrow> Inl e
      | Inr relevant_memories \<Rightarrow>
          Inr (join nl
                 ([''User Profile: '' @ dumps ex (profile (web_profile self))] @
                  (if relevant_memories = [] then []
                   else (nl @ ''Relevant past interactions:'')
                          # map interaction_block (enumerate 1 relevant_memories)))))"

text \<open>\<^verbatim>\<open>ghost_web.py\<close>, \<^verbatim>\<open>Ghost.get_session\<close>: an unknown id is registered with an empty
  list.\<close>

definition get_session :: "string \<Rightarrow> WebGhost \<Rightarrow> message list \<times> WebGhost" where
  "get_session session_id self =
     (case sessions self session_id of
        None \<Rightarrow> ([], self\<lparr>sessions := (sessions self)(session_id \<mapsto> [])\<rparr>)
      | Some s \<Rightarrow> (s, self))"

text \<open>The window of a session id as \<open>get_session\<close> reads it: empty for an id that is
  not registered.\<close>

definition window :: "WebGhost \<Rightarrow> string \<Rightarrow> message list" where
  "window self session_id = (case sessions self session_id of None \<Rightarrow> [] | Some s \<Rightarrow> s)"

text \<open>\<^verbatim>\<open>ghost_web.py\<close>, \<^verbatim>\<open>Ghost.chat\<close>.\<close>

definition chat :: "env \<Rightarrow> string \<Rightarrow> string \<Rightarrow> bool \<Rightarrow> WebGhost \<Rightarrow> (error + string) \<times> WebGhost" where
  "chat ex user_message session_id use_memory self =
     (case update_interaction_count (web_profile self) of
        Inl e \<Rightarrow> (Inl e, self)
      | Inr p \<Rightarrow>
          let self1 = self\<lparr>web_profile := p\<rparr> in
          (case (if use_memory
                 then (case web_build_context ex self1 user_message of
                         Inl e \<Rightarrow> Inl e
                       | Inr context \<Rightarrow>
                           Inr (system_prompt @ nl @ nl @ ''CONTEXT FROM MEMORY:'' @ nl @ context))
                 else Inr system_prompt) of
             Inl e \<Rightarrow> (Inl e, self1)
           | Inr prompt \<Rightarrow>
               let (sess, self2) = get_session session_id self1;
                   messages = sess @ [\<lparr>role = ''user'', content = user_message\<rparr>]
               in
               (case complete ex prompt messages of
                  Inl m \<Rightarrow> (Inl (CompletionFailure m), self2)
                | Inr [] \<Rightarrow> (Inl IndexError, self2)
                | Inr (ai_response # _) \<Rightarrow>
                    (Inr ai_response,
                     self2\<lparr>sessions := (sessions self2)(session_id \<mapsto>
                       keep_last_20
                         (sess @
                          [\<lparr>role = ''user'', content = user_message\<rparr>,
                           \<lparr>role = ''assistant'', content = ai_response\<rparr>]))\<rparr>))))"

text \<open>\<^verbatim>\<open>ghost_web.py\<close>, \<^verbatim>\<open>Ghost.rate_last_response\<close>.\<close>

definition rate_last_response :: "clock \<Rightarrow> int \<Rightarrow> string \<Rightarrow> WebGhost \<Rightarrow> string \<times> WebGhost" where
  "rate_last_response now rating session_id self =
     (let (sess, self1) = get_session session_id self in
      if length sess \<ge> 2 then
        let user_msg = content (sess ! (length sess - 2));
            ai_msg = content (sess ! (length sess - 1));
            m1 = snd (add_conversation now user_msg ai_msg (Some rating) (web_memory self1))
        in
        (''Response rated '' @ str_int rating @ ''/5 and saved to memory!'',
         self1\<lparr>web_memory :=
           (if rating \<ge> 4
            then add_knowledge (later 2 now) (''Good response pattern: '' @ take 500 ai_msg)
                   ''high_rated'' m1
            else m1)\<rparr>)
      else (''No response to rate yet.'', self1))"

text \<open>\<^verbatim>\<open>ghost_web.py\<close>, \<^verbatim>\<open>Ghost.clear_session\<close>: only a registered id is reset.\<close>

definition clear_session :: "string \<Rightarrow> WebGhost \<Rightarrow> string \<times> WebGhost" where
  "clear_session session_id self =
     (''Session cleared. Long-term memory preserved.'',
      (case sessions self session_id of
         None \<Rightarrow> self
       | Some _ \<Rightarrow> self\<lparr>sessions := (sessions self)(session_id \<mapsto> [])\<rparr>))"

datatype web_command =
    Chat env string string bool
  | RateLast clock int string
  | Clear string

fun web_step :: "WebGhost \<Rightarrow> web_command \<Rightarrow> WebGhost" where
  "web_step g (Chat ex user_message session_id use_memory) =
     snd (chat ex user_message session_id use_memory g)"
| "web_step g (RateLast now rating session_id) = snd (rate_last_response now rating session_id g)"
| "web_step g (Clear session_id) = snd (clear_session session_id g)"

definition web_run :: "WebGhost \<Rightarrow> web_command list \<Rightarrow> WebGhost" where
  "web_run g cmds = foldl web_step g cmds"

subsection \<open>What the search is expected to do\<close>

text \<open>
  Modelled from the spec: Section 4.1 has the search return "up to" the requested number
  of records of the store. The collection's query is not part of the repository's
  source, so the two halves of that contract are predicates on the query: the inner list
  of documents is no longer than \<^verbatim>\<open>n_results\<close>, and the metadata returned are those of
  stored entries.
\<close>

definition at_most_n_results :: "search \<Rightarrow> bool" where
  "at_most_n_results qry =
     (\<forall>c q n r docs0 rest.
        qry c q n = Inr r \<longrightarrow> documents r = Some (docs0 # rest) \<longrightarrow> int (length docs0) \<le> n)"

definition returns_stored :: "search \<Rightarrow> bool" where
  "returns_stored qry =
     (\<forall>c q n r metas0 rest.
        qry c q n = Inr r \<longrightarrow> metadatas r = Some (metas0 # rest) \<longrightarrow>
        set metas0 \<subseteq> entry_metadata ` set c)"

subsection \<open>Labels of stored entries\<close>

text \<open>
  A context block prints a label of each recalled entry in full: the console variant its
  rating, the HTTP variant its timestamp. \<open>remember_conversation\<close> and
  \<open>add_conversation\<close> write \<^verbatim>\<open>unrated\<close> or the digits of the rating (one digit for
  the ratings 1 to 5 that both front ends accept) and the clock's \<^verbatim>\<open>isoformat()\<close>
  (\<^verbatim>\<open>YYYY-MM-DDTHH:MM:SS.ffffff\<close>, 26 characters). The two predicates say that every
  stored entry has labels no longer than that; a missing label prints as \<^verbatim>\<open>None\<close>.
\<close>

definition ratings_short :: "collection \<Rightarrow> bool" where
  "ratings_short c = list_all (\<lambda>e. length (fstr (entry_metadata e ''rating'')) \<le> 7) c"

definition timestamps_short :: "collection \<Rightarrow> bool" where
  "timestamps_short c = list_all (\<lambda>e. length (fstr (entry_metadata e ''timestamp'')) \<le> 26) c"

subsection \<open>Example states and services\<close>

definition clk0 :: clock where
  "clk0 = (\<lambda>i. \<lparr>now_timestamp = ''1700000000.5'',
                 now_isoformat = ''2023-11-14T22:13:20.500000''\<rparr>)"

definition clk1 :: clock where
  "clk1 = (\<lambda>i. \<lparr>now_timestamp = ''1700000060.25'',
                 now_isoformat = ''2023-11-14T22:14:20.250000''\<rparr>)"

text \<open>A search that returns the first \<^verbatim>\<open>n_results\<close> stored entries and refuses a
  request for none.\<close>

definition first_k :: search where
  "first_k c q n =
     (if n \<le> 0 then Inl ''n_results must be positive''
      else Inr \<lparr>documents = Some [map document (take (nat n) c)],
                metadatas = Some [map entry_metadata (take (nat n) c)]\<rparr>)"

definition svc_up :: env where
  "svc_up = \<lparr>dumps = (\<lambda>d. ''{}''), query = first_k, complete = (\<lambda>s ms. Inr [''Hello!''])\<rparr>"

definition svc_down :: env where
  "svc_down = \<lparr>dumps = (\<lambda>d. ''{}''), query = first_k, complete = (\<lambda>s ms. Inl ''overloaded'')\<rparr>"

definition exchange :: "string \<Rightarrow> string \<Rightarrow> message list" where
  "exchange u a = [\<lparr>role = ''user'', content = u\<rparr>, \<lparr>role = ''assistant'', content = a\<rparr>]"

definition mem0 :: GhostMemory where
  "mem0 = \<lparr>conversations = [], knowledge = []\<rparr>"

text \<open>The console assistant right after start-up with no profile file and an empty
  store; with a full window; with a window of three entries.\<close>

definition ghost0 :: Ghost where
  "ghost0 = \<lparr>memory = mem0,
             user_profile = \<lparr>profile = load clk0 None, profile_file = None\<rparr>,
             session = []\<rparr>"

definition ghost_full :: Ghost where
  "ghost_full =
     ghost0\<lparr>session := exchange ''first'' ''1'' @ concat (replicate 9 (exchange ''more'' ''ok''))\<rparr>"

definition ghost_odd :: Ghost where
  "ghost_odd =
     ghost0\<lparr>session := \<lparr>role = ''user'', content = ''stray''\<rparr> # exchange ''Hello'' ''Hi there''\<rparr>"

text \<open>The HTTP assistant right after start-up, and with a full default window.\<close>

definition web0 :: WebGhost where
  "web0 = \<lparr>web_memory = mem0,
           web_profile = \<lparr>profile = load_profile clk0 None, profile_file = None\<rparr>,
           sessions = Map.empty\<rparr>"

definition web_full :: WebGhost where
  "web_full =
     web0\<lparr>sessions :=
       [''default'' \<mapsto> exchange ''first'' ''1'' @ concat (replicate 9 (exchange ''more'' ''ok''))]\<rparr>"

text \<open>Stores holding three and four rated exchanges.\<close>

definition mem3 :: GhostMemory where
  "mem3 = snd (remember_conversation clk1 ''c'' ''C'' None
            (snd (remember_conversation clk0 ''b'' ''B'' (Some 2)
               (snd (remember_conversation clk0 ''a'' ''A'' (Some 5) mem0)))))"

definition mem4 :: GhostMemory where
  "mem4 = snd (remember_conversation clk1 ''d'' ''D'' (Some 4) mem3)"

definition web_mem4 :: GhostMemory where
  "web_mem4 =
     snd (add_conversation clk1 ''d'' ''D'' (Some 4)
       (snd (add_conversation clk1 ''c'' ''C'' (Some 1)
          (snd (add_conversation clk0 ''b'' ''B'' (Some 2)
             (snd (add_conversation clk0 ''a'' ''A'' (Some 5) mem0)))))))"

section \<open>Properties\<close>

subsection \<open>What each operation does to the session window\<close>

lemma keep_last_20_drop: "keep_last_20 s = drop (length s - 20) s"
  by (simp add: keep_last_20_def)

lemma length_keep_last_20: "length (keep_last_20 s) = min 20 (length s)"
  by (simp add: keep_last_20_def)

text \<open>A call of \<open>talk\<close> either raises and leaves window and memory alone, or returns
  the reply and appends the exchange to the window, cut to its last 20 entries.\<close>

lemma talk_cases:
  "(\<exists>e g'. talk ex um g = (Inl e, g') \<and> session g' = session g \<and> memory g' = memory g)
   \<or> (\<exists>r p. talk ex um g =
         (Inr r, g\<lparr>user_profile := p,
                  session := keep_last_20 (session g @ [\<lparr>role = ''user'', content = um\<rparr>,
                                                        \<lparr>role = ''assistant'', content = r\<rparr>])\<rparr>)
         \<and> add_chat (user_profile g) = Inr p)"
  by (auto simp: talk_def Let_def split: sum.splits list.splits)

lemma rate_session: "session (snd (rate now r g)) = session g"
  by (simp add: rate_def Let_def)

lemma chat_cases:
  "(\<exists>e g'. chat ex um sid use g = (Inl e, g') \<and> (\<forall>s. window g' s = window g s)
        \<and> web_memory g' = web_memory g)
   \<or> (\<exists>r g'. chat ex um sid use g = (Inr r, g') \<and> web_memory g' = web_memory g \<and>
        (\<forall>s. window g' s =
           (if s = sid
            then keep_last_20 (window g sid @ [\<lparr>role = ''user'', content = um\<rparr>,
                                               \<lparr>role = ''assistant'', content = r\<rparr>])
            else window g s)))"
  by (auto simp: chat_def Let_def get_session_def window_def
      split: sum.splits list.splits option.splits if_splits)

lemma rate_last_window: "window (snd (rate_last_response now r sid g)) s = window g s"
  by (auto simp: rate_last_response_def Let_def get_session_def window_def split: option.splits)

lemma clear_window: "window (snd (clear_session sid g)) s = (if s = sid then [] else window g s)"
  by (auto simp: clear_session_def window_def split: option.splits)

subsection \<open>The cap of 20 entries\<close>

lemma step_cap: "length (session g) \<le> 20 \<Longrightarrow> length (session (step g c)) \<le> 20"
proof (cases c)
  case (Talk ex um)
  assume "length (session g) \<le> 20"
  with talk_cases [of ex um g] Talk show ?thesis
    by (auto simp: length_keep_last_20)
next
  case (Rate now r)
  assume "length (session g) \<le> 20"
  with Rate show ?thesis by (simp add: rate_session)
next
  case Reset
  then show ?thesis by (simp add: reset_session_def)
qed

lemma run_cap: "length (session g) \<le> 20 \<Longrightarrow> length (session (run g cmds)) \<le> 20"
  unfolding run_def by (induction cmds arbitrary: g) (simp_all add: step_cap)

lemma web_step_cap:
  "\<forall>s. length (window g s) \<le> 20 \<Longrightarrow> length (window (web_step g c) s) \<le> 20"
proof (cases c)
  case (Chat ex um sid use)
  assume "\<forall>s. length (window g s) \<le> 20"
  with chat_cases [of ex um sid use g] Chat show ?thesis
    by (auto simp: length_keep_last_20)
next
  case (RateLast now r sid)
  assume "\<forall>s. length (window g s) \<le> 20"
  with RateLast show ?thesis by (simp add: rate_last_window)
next
  case (Clear sid)
  assume "\<forall>s. length (window g s) \<le> 20"
  with Clear show ?thesis by (simp add: clear_window)
qed

lemma web_run_cap:
  "\<forall>s. length (window g s) \<le> 20 \<Longrightarrow> \<forall>s. length (window (web_run g cmds) s) \<le> 20"
  unfolding web_run_def by (induction cmds arbitrary: g) (simp_all add: web_step_cap)

text \<open>
  Claim C1. A turn that completes leaves the window as the last 20 entries of the old
  window followed by the new user and assistant messages: the entries dropped are the
  oldest, and at most 20 are kept, whatever the window held before. Along every sequence
  of commands from a window of at most 20 entries (the empty one at start-up) the window
  never holds more than 20. In the HTTP variant the same holds for the window of every
  session id.
\<close>

theorem session_window_capped:
  "(fst (talk ex um g) = Inr reply \<longrightarrow>
      session (snd (talk ex um g)) =
        drop (length (session g) + 2 - 20)
          (session g @ [\<lparr>role = ''user'', content = um\<rparr>,
                        \<lparr>role = ''assistant'', content = reply\<rparr>])
      \<and> length (session (snd (talk ex um g))) \<le> 20)
   \<and> (length (session g) \<le> 20 \<longrightarrow> length (session (run g cmds)) \<le> 20)
   \<and> (fst (chat ex um sid use w) = Inr reply \<longrightarrow>
      window (snd (chat ex um sid use w)) sid =
        drop (length (window w sid) + 2 - 20)
          (window w sid @ [\<lparr>role = ''user'', content = um\<rparr>,
                           \<lparr>role = ''assistant'', content = reply\<rparr>])
      \<and> length (window (snd (chat ex um sid use w)) sid) \<le> 20)
   \<and> ((\<forall>s. length (window w s) \<le> 20) \<longrightarrow>
        (\<forall>s. length (window (web_run w wcmds) s) \<le> 20))"
proof -
  have a: "fst (talk ex um g) = Inr reply \<longrightarrow>
      session (snd (talk ex um g)) =
        drop (length (session g) + 2 - 20)
          (session g @ [\<lparr>role = ''user'', content = um\<rparr>,
                        \<lparr>role = ''assistant'', content = reply\<rparr>])
      \<and> length (session (snd (talk ex um g))) \<le> 20"
    using talk_cases [of ex um g] by (auto simp: keep_last_20_drop)
  have b: "fst (chat ex um sid use w) = Inr reply \<longrightarrow>
      window (snd (chat ex um sid use w)) sid =
        drop (length (window w sid) + 2 - 20)
          (window w sid @ [\<lparr>role = ''user'', content = um\<rparr>,
                           \<lparr>role = ''assistant'', content = reply\<rparr>])
      \<and> length (window (snd (chat ex um sid use w)) sid) \<le> 20"
    using chat_cases [of ex um sid use w] by (auto simp: keep_last_20_drop)
  show ?thesis using a b run_cap [of g cmds] web_run_cap [of w wcmds] by blast
qed

text \<open>The unfoldings that evaluate a turn on the example states.\<close>

lemmas turn_defs =
  talk_def chat_def svc_up_def svc_down_def ghost_full_def ghost_odd_def ghost0_def web0_def
  web_full_def mem0_def add_chat_def update_interaction_count_def load_def load_profile_def
  py_add1_def save_def build_context_def web_build_context_def recall_def search_memory_def
  count_def Let_def keep_last_20_def exchange_def get_session_def window_def

theorem session_window_capped_witness:
  "fst (talk svc_up ''again'' ghost_full) = Inr ''Hello!''
   \<and> length (session ghost_full) = 20
   \<and> session (snd (talk svc_up ''again'' ghost_full)) =
       concat (replicate 9 (exchange ''more'' ''ok'')) @ exchange ''again'' ''Hello!''
   \<and> length (session (run ghost0
         [Talk svc_up ''Hello'', Rate clk0 5, Talk svc_down ''anyone?'', Reset])) \<le> 20
   \<and> fst (chat svc_up ''again'' ''default'' True web_full) = Inr ''Hello!''
   \<and> window (snd (chat svc_up ''again'' ''default'' True web_full)) ''default'' =
       concat (replicate 9 (exchange ''more'' ''ok'')) @ exchange ''again'' ''Hello!''
   \<and> length (window (web_run web0
         [Chat svc_up ''Hello'' ''a'' True, RateLast clk0 5 ''a'', Clear ''a'']) ''b'') \<le> 20"
proof -
  have t: "fst (talk svc_up ''again'' ghost_full) = Inr ''Hello!''"
    by (simp add: turn_defs)
  have c: "fst (chat svc_up ''again'' ''default'' True web_full) = Inr ''Hello!''"
    by (simp add: turn_defs)
  have l: "length (session ghost_full) = 20"
    by (simp add: ghost_full_def ghost0_def exchange_def eval_nat_numeral)
  have g: "length (session ghost0) \<le> 20"
    by (simp add: ghost0_def)
  have w: "\<forall>s. length (window web0 s) \<le> 20"
    by (simp add: web0_def window_def)
  have wl: "window web_full ''default'' =
      exchange ''first'' ''1'' @ concat (replicate 9 (exchange ''more'' ''ok''))"
    by (simp add: web_full_def web0_def window_def)
  show ?thesis
    using session_window_capped [of svc_up "''again''" ghost_full "''Hello!''" "[]"
        "''default''" True web_full "[]"]
      session_window_capped [of svc_up "''x''" ghost0 "''y''"
        "[Talk svc_up ''Hello'', Rate clk0 5, Talk svc_down ''anyone?'', Reset]"
        "''b''" True web0
        "[Chat svc_up ''Hello'' ''a'' True, RateLast clk0 5 ''a'', Clear ''a'']"] t c l g w wl
    by (simp add: ghost_full_def ghost0_def exchange_def eval_nat_numeral)
qed

subsection \<open>Even length\<close>

lemma even_keep_last_20: "even (length s) \<Longrightarrow> even (length (keep_last_20 s))"
  by (simp add: keep_last_20_def)

lemma step_even: "even (length (session g)) \<Longrightarrow> even (length (session (step g c)))"
proof (cases c)
  case (Talk ex um)
  assume "even (length (session g))"
  with talk_cases [of ex um g] Talk show ?thesis
    by (auto simp: even_keep_last_20)
next
  case (Rate now r)
  assume "even (length (session g))"
  with Rate show ?thesis by (simp add: rate_session)
next
  case Reset
  then show ?thesis by (simp add: reset_session_def)
qed

lemma run_even: "even (length (session g)) \<Longrightarrow> even (length (session (run g cmds)))"
  unfolding run_def by (induction cmds arbitrary: g) (simp_all add: step_even)

lemma web_step_even:
  "\<forall>s. even (length (window g s)) \<Longrightarrow> even (length (window (web_step g c) s))"
proof (cases c)
  case (Chat ex um sid use)
  assume "\<forall>s. even (length (window g s))"
  with chat_cases [of ex um sid use g] Chat show ?thesis
    by (auto simp: even_keep_last_20)
next
  case (RateLast now r sid)
  assume "\<forall>s. even (length (window g s))"
  with RateLast show ?thesis by (simp add: rate_last_window)
next
  case (Clear sid)
  assume "\<forall>s. even (length (window g s))"
  with Clear show ?thesis by (simp add: clear_window)
qed

lemma web_run_even:
  "\<forall>s. even (length (window g s)) \<Longrightarrow> \<forall>s. even (length (window (web_run g cmds) s))"
  unfolding web_run_def by (induction cmds arbitrary: g) (simp_all add: web_step_even)

text \<open>
  Claim C8. The window has even length throughout: every sequence of commands keeps an
  even length even (the empty window at start-up is even). A completed turn appends the
  user and the assistant message together and cuts to the last 20; \<open>rate\<close> leaves the
  window as it is; \<open>reset_session\<close> and \<open>clear_session\<close> empty it. In the
  HTTP variant this holds for the window of every session id.
\<close>

theorem session_window_even:
  "(even (length (session g)) \<longrightarrow> even (length (session (run g cmds))))
   \<and> (fst (talk ex um g) = Inr reply \<longrightarrow>
        session (snd (talk ex um g)) =
          keep_last_20 (session g @ [\<lparr>role = ''user'', content = um\<rparr>,
                                      \<lparr>role = ''assistant'', content = reply\<rparr>]))
   \<and> (even (length (session g)) \<longrightarrow> even (length (session (snd (talk ex um g)))))
   \<and> session (snd (rate now r g)) = session g
   \<and> session (snd (reset_session g)) = []
   \<and> ((\<forall>s. even (length (window w s))) \<longrightarrow>
        (\<forall>s. even (length (window (web_run w wcmds) s))))
   \<and> (fst (chat ex um sid use w) = Inr reply \<longrightarrow>
        window (snd (chat ex um sid use w)) sid =
          keep_last_20 (window w sid @ [\<lparr>role = ''user'', content = um\<rparr>,
                                         \<lparr>role = ''assistant'', content = reply\<rparr>]))
   \<and> (\<forall>s. window (snd (rate_last_response now r sid w)) s = window w s)
   \<and> window (snd (clear_session sid w)) sid = []"
proof -
  have a: "fst (talk ex um g) = Inr reply \<longrightarrow>
        session (snd (talk ex um g)) =
          keep_last_20 (session g @ [\<lparr>role = ''user'', content = um\<rparr>,
                                      \<lparr>role = ''assistant'', content = reply\<rparr>])"
    using talk_cases [of ex um g] by auto
  have b: "fst (chat ex um sid use w) = Inr reply \<longrightarrow>
        window (snd (chat ex um sid use w)) sid =
          keep_last_20 (window w sid @ [\<lparr>role = ''user'', content = um\<rparr>,
                                         \<lparr>role = ''assistant'', content = reply\<rparr>])"
    using chat_cases [of ex um sid use w] by auto
  have c: "even (length (session g)) \<longrightarrow> even (length (session (snd (talk ex um g))))"
    using step_even [of g "Talk ex um"] by simp
  have d: "session (snd (reset_session g)) = []"
    by (simp add: reset_session_def)
  show ?thesis
    using a b c d run_even [of g cmds] web_run_even [of w wcmds]
    by (simp add: rate_session rate_last_window clear_window)
qed

theorem session_window_even_witness:
  "even (length (session ghost0))
   \<and> even (length (session (run ghost0
         [Talk svc_up ''Hello'', Rate clk0 5, Talk svc_down ''anyone?'', Talk svc_up ''again'', Reset])))
   \<and> fst (talk svc_up ''again'' ghost_full) = Inr ''Hello!''
   \<and> length (session (snd (talk svc_up ''again'' ghost_full))) = 20
   \<and> session (snd (rate clk0 5 ghost_full)) = session ghost_full
   \<and> even (length (window (web_run web0
         [Chat svc_up ''Hello'' ''a'' True, RateLast clk0 5 ''a'', Chat svc_down ''x'' ''b'' False, Clear ''a'']) ''a''))
   \<and> fst (chat svc_up ''again'' ''default'' True web_full) = Inr ''Hello!''
   \<and> length (window (snd (chat svc_up ''again'' ''default'' True web_full)) ''default'') = 20"
proof -
  have t: "fst (talk svc_up ''again'' ghost_full) = Inr ''Hello!''"
    by (simp add: turn_defs)
  have c: "fst (chat svc_up ''again'' ''default'' True web_full) = Inr ''Hello!''"
    by (simp add: turn_defs)
  have g: "even (length (session ghost0))"
    by (simp add: ghost0_def)
  have w: "\<forall>s. even (length (window web0 s))"
    by (simp add: web0_def window_def)
  have l: "length (session ghost_full) = 20"
    by (simp add: ghost_full_def ghost0_def exchange_def eval_nat_numeral)
  have wl: "length (window web_full ''default'') = 20"
    by (simp add: web_full_def web0_def window_def exchange_def eval_nat_numeral)
  show ?thesis
    using session_window_even [of ghost_full "[]" svc_up "''again''" "''Hello!''" clk0 5
        web_full "[]" "''default''" True]
      session_window_even [of ghost0
        "[Talk svc_up ''Hello'', Rate clk0 5, Talk svc_down ''anyone?'', Talk svc_up ''again'', Reset]"
        svc_up "''x''" "''y''" clk0 5 web0
        "[Chat svc_up ''Hello'' ''a'' True, RateLast clk0 5 ''a'', Chat svc_down ''x'' ''b'' False, Clear ''a'']"
        "''a''" True] t c g w l wl
    by (simp add: length_keep_last_20)
qed

subsection \<open>A turn that fails\<close>

lemma talk_down:
  "\<forall>s ms. complete ex s ms = Inl m \<Longrightarrow> \<exists>e. fst (talk ex um g) = Inl e"
  by (auto simp: talk_def Let_def split: sum.splits list.splits)

lemma chat_down:
  "\<forall>s ms. complete ex s ms = Inl m \<Longrightarrow> \<exists>e. fst (chat ex um sid use w) = Inl e"
  by (auto simp: chat_def Let_def split: sum.splits list.splits prod.splits)

text \<open>
  Claim C5. A turn that raises leaves the session window exactly as it was; when the
  completion call fails the turn raises, so the user message is not appended on its own.
  In the HTTP variant the window of every session id reads as before (an id seen for the
  first time is registered with an empty window before the call is made).
\<close>

theorem failed_turn_keeps_window:
  "(fst (talk ex um g) = Inl e \<longrightarrow> session (snd (talk ex um g)) = session g)
   \<and> ((\<forall>s ms. complete ex s ms = Inl m) \<longrightarrow>
        (\<exists>e'. fst (talk ex um g) = Inl e') \<and> session (snd (talk ex um g)) = session g)
   \<and> (fst (chat ex um sid use w) = Inl e \<longrightarrow>
        (\<forall>s. window (snd (chat ex um sid use w)) s = window w s))
   \<and> ((\<forall>s ms. complete ex s ms = Inl m) \<longrightarrow>
        (\<exists>e'. fst (chat ex um sid use w) = Inl e') \<and>
        (\<forall>s. window (snd (chat ex um sid use w)) s = window w s))"
proof -
  have a: "fst (talk ex um g) = Inl e' \<longrightarrow> session (snd (talk ex um g)) = session g" for e'
    using talk_cases [of ex um g] by auto
  have b: "fst (chat ex um sid use w) = Inl e' \<longrightarrow>
        (\<forall>s. window (snd (chat ex um sid use w)) s = window w s)" for e'
    using chat_cases [of ex um sid use w] by auto
  show ?thesis
    using a b talk_down [of ex m um g] chat_down [of ex m um sid use w] by blast
qed

theorem failed_turn_keeps_window_witness:
  "fst (talk svc_down ''again'' ghost_full) = Inl (CompletionFailure ''overloaded'')
   \<and> session (snd (talk svc_down ''again'' ghost_full)) = session ghost_full
   \<and> fst (chat svc_down ''again'' ''default'' True web_full) = Inl (CompletionFailure ''overloaded'')
   \<and> window (snd (chat svc_down ''again'' ''default'' True web_full)) ''default'' = window web_full ''default''
   \<and> fst (chat svc_down ''Hello'' ''new'' True web0) = Inl (CompletionFailure ''overloaded'')
   \<and> window (snd (chat svc_down ''Hello'' ''new'' True web0)) ''new'' = []
   \<and> sessions (snd (chat svc_down ''Hello'' ''new'' True web0)) ''new'' = Some []
   \<and> sessions web0 ''new'' = None"
proof -
  have t: "fst (talk svc_down ''again'' ghost_full) = Inl (CompletionFailure ''overloaded'')"
    by (simp add: turn_defs)
  have c: "fst (chat svc_down ''again'' ''default'' True web_full) = Inl (CompletionFailure ''overloaded'')"
    by (simp add: turn_defs)
  have n: "fst (chat svc_down ''Hello'' ''new'' True web0) = Inl (CompletionFailure ''overloaded'')"
    by (simp add: turn_defs)
  have s: "sessions (snd (chat svc_down ''Hello'' ''new'' True web0)) ''new'' = Some []"
    by (simp add: turn_defs)
  have d: "\<forall>s ms. complete svc_down s ms = Inl ''overloaded''"
    by (simp add: svc_down_def)
  have w0: "window web0 ''new'' = []" "sessions web0 ''new'' = None"
    by (simp_all add: web0_def window_def)
  show ?thesis
    using failed_turn_keeps_window [of svc_down "''again''" ghost_full "CompletionFailure ''overloaded''"
        "''overloaded''" "''default''" True web_full]
      failed_turn_keeps_window [of svc_down "''Hello''" ghost_full "CompletionFailure ''overloaded''"
        "''overloaded''" "''new''" True web0] t c n s d w0
    by simp
qed

subsection \<open>The chat counter\<close>

lemma py_add1_Inr:
  "py_add1 v = Inr v' \<Longrightarrow> \<exists>n. num_of v = Some n \<and> v' = JInt (n + 1)"
  by (cases v) (auto simp: py_add1_def num_of_def)

lemma add_chat_Inr:
  assumes "add_chat up = Inr p"
  shows "\<exists>v n. profile up ''total_chats'' = Some v \<and> num_of v = Some n \<and>
           profile p = (profile up)(''total_chats'' \<mapsto> JInt (n + 1)) \<and>
           profile_file p = Some (profile p)"
proof -
  from assms obtain v v' where v: "profile up ''total_chats'' = Some v" "py_add1 v = Inr v'"
    and p: "p = save (up\<lparr>profile := (profile up)(''total_chats'' \<mapsto> v')\<rparr>)"
    by (auto simp: add_chat_def split: option.splits sum.splits)
  from py_add1_Inr [OF v(2)] obtain n where "num_of v = Some n" "v' = JInt (n + 1)"
    by blast
  with v p show ?thesis by (simp add: save_def)
qed

lemma update_interaction_count_Inr:
  assumes "update_interaction_count up = Inr p"
  shows "\<exists>n. num_of (case profile up ''total_chats'' of None \<Rightarrow> JInt 0 | Some v \<Rightarrow> v) = Some n \<and>
           profile p = (profile up)(''total_chats'' \<mapsto> JInt (n + 1)) \<and>
           profile_file p = Some (profile p)"
proof -
  let ?v = "case profile up ''total_chats'' of None \<Rightarrow> JInt 0 | Some v \<Rightarrow> v"
  from assms obtain v' where v: "py_add1 ?v = Inr v'"
    and p: "p = save (up\<lparr>profile := (profile up)(''total_chats'' \<mapsto> v')\<rparr>)"
    by (auto simp: update_interaction_count_def split: sum.splits)
  from py_add1_Inr [OF v] obtain n where "num_of ?v = Some n" "v' = JInt (n + 1)"
    by blast
  with p show ?thesis by (simp add: save_def)
qed

lemma add_chat_error: "add_chat up \<noteq> Inl (CompletionFailure m)"
  by (auto simp: add_chat_def py_add1_def split: option.splits json.splits)

lemma update_interaction_count_error: "update_interaction_count up \<noteq> Inl (CompletionFailure m)"
  by (auto simp: update_interaction_count_def py_add1_def split: option.splits json.splits)

lemma talk_profile: "add_chat (user_profile g) = Inr p \<Longrightarrow> user_profile (snd (talk ex um g)) = p"
  by (auto simp: talk_def Let_def split: sum.splits list.splits)

lemma chat_profile:
  "update_interaction_count (web_profile w) = Inr p \<Longrightarrow>
   web_profile (snd (chat ex um sid use w)) = p"
  by (auto simp: chat_def Let_def get_session_def split: sum.splits list.splits prod.splits option.splits)

lemma talk_completion_failure:
  "fst (talk ex um g) = Inl (CompletionFailure m) \<Longrightarrow> \<exists>p. add_chat (user_profile g) = Inr p"
  using add_chat_error [of "user_profile g" m]
  by (cases "add_chat (user_profile g)") (auto simp: talk_def)

lemma chat_completion_failure:
  "fst (chat ex um sid use w) = Inl (CompletionFailure m) \<Longrightarrow>
   \<exists>p. update_interaction_count (web_profile w) = Inr p"
  using update_interaction_count_error [of "web_profile w" m]
  by (cases "update_interaction_count (web_profile w)") (auto simp: chat_def)

text \<open>
  Claim C9. The counter is incremented and the profile saved first: whatever happens
  later in the turn, the profile afterwards is the one \<open>add_chat\<close>
  (\<open>update_interaction_count\<close> in the HTTP variant) returned. So a turn whose completion
  call fails ends with \<^verbatim>\<open>total_chats\<close> one higher, every other key of the profile as it
  was, and the file holding the new profile. (In the console variant a profile without
  the key makes \<open>add_chat\<close> raise \<^verbatim>\<open>KeyError\<close> before anything is called; the HTTP
  variant counts a missing key as 0.)
\<close>

theorem failed_turn_counts_chat:
  "(fst (talk ex um g) = Inl (CompletionFailure m) \<longrightarrow>
      (\<exists>v n. profile (user_profile g) ''total_chats'' = Some v \<and> num_of v = Some n \<and>
         profile (user_profile (snd (talk ex um g))) =
           (profile (user_profile g))(''total_chats'' \<mapsto> JInt (n + 1))) \<and>
      profile_file (user_profile (snd (talk ex um g))) =
        Some (profile (user_profile (snd (talk ex um g)))))
   \<and> (add_chat (user_profile g) = Inr p \<longrightarrow> user_profile (snd (talk ex um g)) = p)
   \<and> (fst (chat ex um sid use w) = Inl (CompletionFailure m) \<longrightarrow>
      (\<exists>n. num_of (case profile (web_profile w) ''total_chats'' of
                     None \<Rightarrow> JInt 0 | Some v \<Rightarrow> v) = Some n \<and>
         profile (web_profile (snd (chat ex um sid use w))) =
           (profile (web_profile w))(''total_chats'' \<mapsto> JInt (n + 1))) \<and>
      profile_file (web_profile (snd (chat ex um sid use w))) =
        Some (profile (web_profile (snd (chat ex um sid use w)))))
   \<and> (update_interaction_count (web_profile w) = Inr q \<longrightarrow>
        web_profile (snd (chat ex um sid use w)) = q)"
proof -
  have a: "(\<exists>v n. profile (user_profile g) ''total_chats'' = Some v \<and> num_of v = Some n \<and>
         profile (user_profile (snd (talk ex um g))) =
           (profile (user_profile g))(''total_chats'' \<mapsto> JInt (n + 1))) \<and>
      profile_file (user_profile (snd (talk ex um g))) =
        Some (profile (user_profile (snd (talk ex um g))))"
    if "fst (talk ex um g) = Inl (CompletionFailure m)"
  proof -
    from talk_completion_failure [OF that] obtain p' where p': "add_chat (user_profile g) = Inr p'"
      by blast
    from talk_profile [OF p'] add_chat_Inr [OF p'] show ?thesis by auto
  qed
  have b: "(\<exists>n. num_of (case profile (web_profile w) ''total_chats'' of
                     None \<Rightarrow> JInt 0 | Some v \<Rightarrow> v) = Some n \<and>
         profile (web_profile (snd (chat ex um sid use w))) =
           (profile (web_profile w))(''total_chats'' \<mapsto> JInt (n + 1))) \<and>
      profile_file (web_profile (snd (chat ex um sid use w))) =
        Some (profile (web_profile (snd (chat ex um sid use w))))"
    if "fst (chat ex um sid use w) = Inl (CompletionFailure m)"
  proof -
    from chat_completion_failure [OF that] obtain p'
      where p': "update_interaction_count (web_profile w) = Inr p'"
      by blast
    from chat_profile [OF p'] update_interaction_count_Inr [OF p'] show ?thesis by auto
  qed
  show ?thesis
    using a b talk_profile [of g p ex um] chat_profile [of w q ex um sid use] by blast
qed

theorem failed_turn_counts_chat_witness:
  "fst (talk svc_down ''Hello'' ghost0) = Inl (CompletionFailure ''overloaded'')
   \<and> profile (user_profile ghost0) ''total_chats'' = Some (JInt 0)
   \<and> profile (user_profile (snd (talk svc_down ''Hello'' ghost0))) =
       (profile (user_profile ghost0))(''total_chats'' \<mapsto> JInt 1)
   \<and> profile_file (user_profile (snd (talk svc_down ''Hello'' ghost0))) =
       Some ((profile (user_profile ghost0))(''total_chats'' \<mapsto> JInt 1))
   \<and> fst (chat svc_down ''Hello'' ''default'' True web0) = Inl (CompletionFailure ''overloaded'')
   \<and> profile (web_profile (snd (chat svc_down ''Hello'' ''default'' True web0))) =
       (profile (web_profile web0))(''total_chats'' \<mapsto> JInt 1)"
proof -
  have t: "fst (talk svc_down ''Hello'' ghost0) = Inl (CompletionFailure ''overloaded'')"
    by (simp add: turn_defs)
  have c: "fst (chat svc_down ''Hello'' ''default'' True web0) = Inl (CompletionFailure ''overloaded'')"
    by (simp add: turn_defs)
  have g: "profile (user_profile ghost0) ''total_chats'' = Some (JInt 0)"
    by (simp add: ghost0_def load_def)
  have w: "profile (web_profile web0) ''total_chats'' = Some (JInt 0)"
    by (simp add: web0_def load_profile_def)
  show ?thesis
    using failed_turn_counts_chat [of svc_down "''Hello''" ghost0 "''overloaded''" _
        "''default''" True web0] t c g w
    by (auto simp: num_of_def)
qed

subsection \<open>Rating\<close>

lemma remember_conversations:
  "conversations (snd (remember_conversation now u a r m)) =
     conversations m @
       [\<lparr>entry_id = ''mem_'' @ now_timestamp (now 0),
         document = ''User: '' @ u @ nl @ nl @ ''Ghost: '' @ a,
         entry_metadata = [''timestamp'' \<mapsto> now_isoformat (now 1),
                           ''rating'' \<mapsto> rating_text r,
                           ''preview'' \<mapsto> take 100 u]\<rparr>]"
  "knowledge (snd (remember_conversation now u a r m)) = knowledge m"
  by (simp_all add: remember_conversation_def collection_add_def Let_def)

lemma add_conversation_conversations:
  "conversations (snd (add_conversation now u a r m)) =
     conversations m @
       [\<lparr>entry_id = ''conv_'' @ now_timestamp (now 0),
         document = ''User: '' @ u @ nl @ ''Ghost: '' @ a,
         entry_metadata = [''timestamp'' \<mapsto> now_isoformat (now 1),
                           ''rating'' \<mapsto> rating_text r,
                           ''user_message'' \<mapsto> take 500 u]\<rparr>]"
  "knowledge (snd (add_conversation now u a r m)) = knowledge m"
  by (simp_all add: add_conversation_def collection_add_def Let_def)

lemma learn_collections:
  "conversations (learn now i c m) = conversations m"
  "knowledge (learn now i c m) =
     knowledge m @ [\<lparr>entry_id = ''learn_'' @ now_timestamp (now 0), document = i,
                      entry_metadata = [''category'' \<mapsto> c, ''timestamp'' \<mapsto> now_isoformat (now 1)]\<rparr>]"
  by (simp_all add: learn_def collection_add_def Let_def)

lemma add_knowledge_collections:
  "conversations (add_knowledge now i c m) = conversations m"
  "knowledge (add_knowledge now i c m) =
     knowledge m @ [\<lparr>entry_id = ''know_'' @ now_timestamp (now 0), document = i,
                      entry_metadata = [''category'' \<mapsto> c, ''timestamp'' \<mapsto> now_isoformat (now 1)]\<rparr>]"
  by (simp_all add: add_knowledge_def collection_add_def Let_def)

lemma later_2:
  "later 2 now 0 = now 2"
  "later 2 now (Suc 0) = now 3"
  by (simp_all add: later_def numeral_2_eq_2 numeral_3_eq_3)

text \<open>The entry a rating stores, from the last two messages of a window.\<close>

lemma rate_memory:
  assumes "2 \<le> length (session g)"
  shows "conversations (memory (snd (rate now r g))) =
           conversations (memory g) @
             [\<lparr>entry_id = ''mem_'' @ now_timestamp (now 0),
               document = ''User: '' @ content (session g ! (length (session g) - 2)) @ nl @ nl @
                          ''Ghost: '' @ content (session g ! (length (session g) - 1)),
               entry_metadata = [''timestamp'' \<mapsto> now_isoformat (now 1),
                                 ''rating'' \<mapsto> rating_text (Some r),
                                 ''preview'' \<mapsto> take 100 (content (session g ! (length (session g) - 2)))]\<rparr>]"
    and "knowledge (memory (snd (rate now r g))) =
           (if 4 \<le> r
            then knowledge (memory g) @
              [\<lparr>entry_id = ''learn_'' @ now_timestamp (now 2),
                document = ''User appreciated: '' @ take 300 (content (session g ! (length (session g) - 1))),
                entry_metadata = [''category'' \<mapsto> ''good_response'',
                                  ''timestamp'' \<mapsto> now_isoformat (now 3)]\<rparr>]
            else knowledge (memory g))"
  using assms
  by (simp_all add: rate_def Let_def remember_conversations learn_collections later_2)

lemma rate_last_memory:
  assumes "2 \<le> length (window w sid)"
  shows "conversations (web_memory (snd (rate_last_response now r sid w))) =
           conversations (web_memory w) @
             [\<lparr>entry_id = ''conv_'' @ now_timestamp (now 0),
               document = ''User: '' @ content (window w sid ! (length (window w sid) - 2)) @ nl @
                          ''Ghost: '' @ content (window w sid ! (length (window w sid) - 1)),
               entry_metadata = [''timestamp'' \<mapsto> now_isoformat (now 1),
                                 ''rating'' \<mapsto> rating_text (Some r),
                                 ''user_message'' \<mapsto> take 500 (content (window w sid ! (length (window w sid) - 2)))]\<rparr>]"
    and "knowledge (web_memory (snd (rate_last_response now r sid w))) =
           (if 4 \<le> r
            then knowledge (web_memory w) @
              [\<lparr>entry_id = ''know_'' @ now_timestamp (now 2),
                document = ''Good response pattern: '' @ take 500 (content (window w sid ! (length (window w sid) - 1))),
                entry_metadata = [''category'' \<mapsto> ''high_rated'',
                                  ''timestamp'' \<mapsto> now_isoformat (now 3)]\<rparr>]
            else knowledge (web_memory w))"
  using assms
  by (auto simp: rate_last_response_def Let_def get_session_def window_def
        add_conversation_conversations add_knowledge_collections later_2 split: option.splits)

text \<open>
  Claim C2. A rating on a window of at least two entries appends exactly one entry to the
  conversations and leaves the earlier ones alone; a rating of 4 or more also appends
  exactly one entry to the knowledge collection, a rating below 4 leaves the knowledge
  collection as it is. Ratings 4 and 5, and ratings 1, 2 and 3, are instances.
\<close>

theorem rate_creates_records:
  "(2 \<le> length (session g) \<longrightarrow>
      count (conversations (memory (snd (rate now r g)))) = count (conversations (memory g)) + 1
      \<and> (\<exists>e. conversations (memory (snd (rate now r g))) = conversations (memory g) @ [e])
      \<and> (4 \<le> r \<longrightarrow>
           count (knowledge (memory (snd (rate now r g)))) = count (knowledge (memory g)) + 1
           \<and> (\<exists>k. knowledge (memory (snd (rate now r g))) = knowledge (memory g) @ [k]))
      \<and> (r < 4 \<longrightarrow> knowledge (memory (snd (rate now r g))) = knowledge (memory g)))
   \<and> (2 \<le> length (window w sid) \<longrightarrow>
      count (conversations (web_memory (snd (rate_last_response now r sid w)))) =
        count (conversations (web_memory w)) + 1
      \<and> (\<exists>e. conversations (web_memory (snd (rate_last_response now r sid w))) =
               conversations (web_memory w) @ [e])
      \<and> (4 \<le> r \<longrightarrow>
           count (knowledge (web_memory (snd (rate_last_response now r sid w)))) =
             count (knowledge (web_memory w)) + 1
           \<and> (\<exists>k. knowledge (web_memory (snd (rate_last_response now r sid w))) =
                    knowledge (web_memory w) @ [k]))
      \<and> (r < 4 \<longrightarrow>
           knowledge (web_memory (snd (rate_last_response now r sid w))) = knowledge (web_memory w)))"
proof -
  have a: "count (conversations (memory (snd (rate now r g)))) = count (conversations (memory g)) + 1
      \<and> (\<exists>e. conversations (memory (snd (rate now r g))) = conversations (memory g) @ [e])
      \<and> (4 \<le> r \<longrightarrow>
           count (knowledge (memory (snd (rate now r g)))) = count (knowledge (memory g)) + 1
           \<and> (\<exists>k. knowledge (memory (snd (rate now r g))) = knowledge (memory g) @ [k]))
      \<and> (r < 4 \<longrightarrow> knowledge (memory (snd (rate now r g))) = knowledge (memory g))"
    if "2 \<le> length (session g)"
    using rate_memory [OF that, of now r] by (simp add: count_def)
  have b: "count (conversations (web_memory (snd (rate_last_response now r sid w)))) =
        count (conversations (web_memory w)) + 1
      \<and> (\<exists>e. conversations (web_memory (snd (rate_last_response now r sid w))) =
               conversations (web_memory w) @ [e])
      \<and> (4 \<le> r \<longrightarrow>
           count (knowledge (web_memory (snd (rate_last_response now r sid w)))) =
             count (knowledge (web_memory w)) + 1
           \<and> (\<exists>k. knowledge (web_memory (snd (rate_last_response now r sid w))) =
                    knowledge (web_memory w) @ [k]))
      \<and> (r < 4 \<longrightarrow>
           knowledge (web_memory (snd (rate_last_response now r sid w))) = knowledge (web_memory w))"
    if "2 \<le> length (window w sid)"
    using rate_last_memory [OF that, of now r] by (simp add: count_def)
  show ?thesis using a b by blast
qed

theorem rate_creates_records_witness:
  "2 \<le> length (session ghost_full)
   \<and> count (conversations (memory (snd (rate clk0 5 ghost_full)))) = 1
   \<and> count (knowledge (memory (snd (rate clk0 5 ghost_full)))) = 1
   \<and> count (conversations (memory (snd (rate clk0 2 ghost_full)))) = 1
   \<and> count (knowledge (memory (snd (rate clk0 2 ghost_full)))) = 0
   \<and> 2 \<le> length (window web_full ''default'')
   \<and> count (conversations (web_memory (snd (rate_last_response clk0 4 ''default'' web_full)))) = 1
   \<and> count (knowledge (web_memory (snd (rate_last_response clk0 4 ''default'' web_full)))) = 1
   \<and> count (conversations (web_memory (snd (rate_last_response clk0 3 ''default'' web_full)))) = 1
   \<and> count (knowledge (web_memory (snd (rate_last_response clk0 3 ''default'' web_full)))) = 0"
proof -
  have l: "2 \<le> length (session ghost_full)"
    by (simp add: ghost_full_def ghost0_def exchange_def)
  have wl: "2 \<le> length (window web_full ''default'')"
    by (simp add: web_full_def web0_def window_def exchange_def)
  have m: "conversations (memory ghost_full) = []" "knowledge (memory ghost_full) = []"
    "conversations (web_memory web_full) = []" "knowledge (web_memory web_full) = []"
    by (simp_all add: web_full_def web0_def ghost_full_def ghost0_def mem0_def)
  show ?thesis
    using rate_creates_records [of ghost_full clk0 5 web_full "''default''"]
      rate_creates_records [of ghost_full clk0 2 web_full "''default''"]
      rate_creates_records [of ghost_full clk0 4 web_full "''default''"]
      rate_creates_records [of ghost_full clk0 3 web_full "''default''"] l wl m
    by (simp add: count_def)
qed

text \<open>
  Claim C10. Rating is not idempotent. \<open>rate\<close> leaves the window as it is, so a second
  rating finds the same last exchange: each of the two calls appends one entry made from
  that exchange, and the number of stored conversations goes up by two.
\<close>

theorem rate_not_idempotent:
  "(2 \<le> length (session g) \<longrightarrow>
      session (snd (rate now1 r1 g)) = session g
      \<and> count (conversations (memory (snd (rate now1 r1 g)))) = count (conversations (memory g)) + 1
      \<and> count (conversations (memory (snd (rate now2 r2 (snd (rate now1 r1 g)))))) =
          count (conversations (memory g)) + 2
      \<and> document (last (conversations (memory (snd (rate now1 r1 g))))) =
          ''User: '' @ content (session g ! (length (session g) - 2)) @ nl @ nl @
          ''Ghost: '' @ content (session g ! (length (session g) - 1))
      \<and> document (last (conversations (memory (snd (rate now2 r2 (snd (rate now1 r1 g))))))) =
          document (last (conversations (memory (snd (rate now1 r1 g))))))
   \<and> (2 \<le> length (window w sid) \<longrightarrow>
      window (snd (rate_last_response now1 r1 sid w)) sid = window w sid
      \<and> count (conversations (web_memory (snd (rate_last_response now1 r1 sid w)))) =
          count (conversations (web_memory w)) + 1
      \<and> count (conversations (web_memory
            (snd (rate_last_response now2 r2 sid (snd (rate_last_response now1 r1 sid w)))))) =
          count (conversations (web_memory w)) + 2
      \<and> document (last (conversations (web_memory (snd (rate_last_response now1 r1 sid w))))) =
          ''User: '' @ content (window w sid ! (length (window w sid) - 2)) @ nl @
          ''Ghost: '' @ content (window w sid ! (length (window w sid) - 1))
      \<and> document (last (conversations (web_memory
            (snd (rate_last_response now2 r2 sid (snd (rate_last_response now1 r1 sid w))))))) =
          document (last (conversations (web_memory (snd (rate_last_response now1 r1 sid w))))))"
proof -
  let ?g1 = "snd (rate now1 r1 g)"
  let ?w1 = "snd (rate_last_response now1 r1 sid w)"
  have a: "session ?g1 = session g
      \<and> count (conversations (memory ?g1)) = count (conversations (memory g)) + 1
      \<and> count (conversations (memory (snd (rate now2 r2 ?g1)))) =
          count (conversations (memory g)) + 2
      \<and> document (last (conversations (memory ?g1))) =
          ''User: '' @ content (session g ! (length (session g) - 2)) @ nl @ nl @
          ''Ghost: '' @ content (session g ! (length (session g) - 1))
      \<and> document (last (conversations (memory (snd (rate now2 r2 ?g1))))) =
          document (last (conversations (memory ?g1)))"
    if h: "2 \<le> length (session g)"
  proof -
    have s: "session ?g1 = session g" by (rule rate_session)
    then have h1: "2 \<le> length (session ?g1)" using h by simp
    show ?thesis
      using rate_memory(1) [OF h, of now1 r1] rate_memory(1) [OF h1, of now2 r2] s
      by (simp add: count_def)
  qed
  have b: "window ?w1 sid = window w sid
      \<and> count (conversations (web_memory ?w1)) = count (conversations (web_memory w)) + 1
      \<and> count (conversations (web_memory (snd (rate_last_response now2 r2 sid ?w1)))) =
          count (conversations (web_memory w)) + 2
      \<and> document (last (conversations (web_memory ?w1))) =
          ''User: '' @ content (window w sid ! (length (window w sid) - 2)) @ nl @
          ''Ghost: '' @ content (window w sid ! (length (window w sid) - 1))
      \<and> document (last (conversations (web_memory (snd (rate_last_response now2 r2 sid ?w1))))) =
          document (last (conversations (web_memory ?w1)))"
    if h: "2 \<le> length (window w sid)"
  proof -
    have s: "window ?w1 sid = window w sid" by (rule rate_last_window)
    then have h1: "2 \<le> length (window ?w1 sid)" using h by simp
    show ?thesis
      using rate_last_memory(1) [OF h, of now1 r1] rate_last_memory(1) [OF h1, of now2 r2] s
      by (simp add: count_def)
  qed
  show ?thesis using a b by blast
qed

theorem rate_not_idempotent_witness:
  "2 \<le> length (session ghost_full)
   \<and> count (conversations (memory ghost_full)) = 0
   \<and> count (conversations (memory (snd (rate clk1 5 (snd (rate clk0 5 ghost_full)))))) = 2
   \<and> document (last (conversations (memory (snd (rate clk1 5 (snd (rate clk0 5 ghost_full))))))) =
       ''User: more'' @ nl @ nl @ ''Ghost: ok''
   \<and> 2 \<le> length (window web_full ''default'')
   \<and> count (conversations (web_memory
         (snd (rate_last_response clk1 5 ''default'' (snd (rate_last_response clk0 5 ''default'' web_full)))))) = 2"
proof -
  have l: "length (session ghost_full) = 20"
    by (simp add: ghost_full_def ghost0_def exchange_def eval_nat_numeral)
  have wl: "length (window web_full ''default'') = 20"
    by (simp add: web_full_def web0_def window_def exchange_def eval_nat_numeral)
  have m: "conversations (memory ghost_full) = []" "conversations (web_memory web_full) = []"
    by (simp_all add: web_full_def web0_def ghost_full_def ghost0_def mem0_def)
  have c: "content (session ghost_full ! 18) = ''more''" "content (session ghost_full ! 19) = ''ok''"
    by (simp_all add: ghost_full_def ghost0_def exchange_def eval_nat_numeral nth_append)
  show ?thesis
    using rate_not_idempotent [of ghost_full clk0 5 clk1 5 web_full "''default''"] l wl m c
    by (simp add: count_def)
qed

text \<open>
  Claim C3, as stated, fails on a window of odd length 3 or more: \<open>rate\<close> tests
  only that the window has at least two entries, so on the three-entry window of
  \<open>ghost_odd\<close> it stores the last two entries as a conversation (and, at rating 5, an
  insight). Such a window does not arise from the empty one (the window stays even), but
  the guard itself does not look at parity.
\<close>

theorem rate_odd_window_counterexample:
  "odd (length (session ghost_odd))
   \<and> fst (rate clk0 5 ghost_odd) \<noteq> ''No response to rate yet.''
   \<and> count (conversations (memory ghost_odd)) = 0
   \<and> count (conversations (memory (snd (rate clk0 5 ghost_odd)))) = 1
   \<and> count (knowledge (memory (snd (rate clk0 5 ghost_odd)))) = 1"
  by (simp add: rate_def Let_def ghost_odd_def ghost0_def mem0_def exchange_def count_def star_def
      remember_conversations learn_collections)

text \<open>
  Claim C3, amended. On a window of fewer than two entries (the empty window, or a single
  entry) \<open>rate\<close> returns the message \<^verbatim>\<open>No response to rate yet.\<close> and changes
  nothing. In the HTTP variant the same message is returned, memory and profile are
  unchanged and the window of every session id reads as before.
\<close>

theorem rate_nothing_to_rate:
  "(length (session g) < 2 \<longrightarrow> rate now r g = (''No response to rate yet.'', g))
   \<and> (length (window w sid) < 2 \<longrightarrow>
        fst (rate_last_response now r sid w) = ''No response to rate yet.''
        \<and> web_memory (snd (rate_last_response now r sid w)) = web_memory w
        \<and> web_profile (snd (rate_last_response now r sid w)) = web_profile w
        \<and> (\<forall>s. window (snd (rate_last_response now r sid w)) s = window w s))"
  by (auto simp: rate_def rate_last_response_def Let_def get_session_def window_def
      split: option.splits)

theorem rate_nothing_to_rate_witness:
  "length (session ghost0) < 2
   \<and> rate clk0 5 ghost0 = (''No response to rate yet.'', ghost0)
   \<and> length (session (ghost0\<lparr>session := [\<lparr>role = ''user'', content = ''stray''\<rparr>]\<rparr>)) < 2
   \<and> rate clk0 5 (ghost0\<lparr>session := [\<lparr>role = ''user'', content = ''stray''\<rparr>]\<rparr>) =
       (''No response to rate yet.'', ghost0\<lparr>session := [\<lparr>role = ''user'', content = ''stray''\<rparr>]\<rparr>)
   \<and> length (window web0 ''default'') < 2
   \<and> fst (rate_last_response clk0 5 ''default'' web0) = ''No response to rate yet.''
   \<and> web_memory (snd (rate_last_response clk0 5 ''default'' web0)) = web_memory web0"
proof -
  have g: "length (session ghost0) < 2" by (simp add: ghost0_def)
  have w: "length (window web0 ''default'') < 2" by (simp add: web0_def window_def)
  show ?thesis
    using rate_nothing_to_rate [of ghost0 clk0 5 web0 "''default''"]
      rate_nothing_to_rate [of "ghost0\<lparr>session := [\<lparr>role = ''user'', content = ''stray''\<rparr>]\<rparr>"
        clk0 5 web0 "''default''"] g w
    by simp
qed

subsection \<open>Record ids\<close>

text \<open>
  Claim C6, as stated, fails: the id is a fixed prefix followed by the text of the clock's
  timestamp and nothing else, so two calls that read the same timestamp return the same
  id, whatever is stored.
\<close>

theorem same_instant_ids_collide:
  "fst (add_conversation clk0 ''Hello'' ''Hi there'' (Some 5) mem0) =
     fst (add_conversation clk0 ''Bye'' ''See you'' (Some 2)
            (snd (add_conversation clk0 ''Hello'' ''Hi there'' (Some 5) mem0)))
   \<and> fst (remember_conversation clk0 ''Hello'' ''Hi there'' (Some 5) mem0) =
     fst (remember_conversation clk0 ''Bye'' ''See you'' (Some 2)
            (snd (remember_conversation clk0 ''Hello'' ''Hi there'' (Some 5) mem0)))"
  by (simp add: add_conversation_def remember_conversation_def Let_def)

text \<open>
  Claim C6, amended. The id returned is \<^verbatim>\<open>conv_\<close> (\<^verbatim>\<open>mem_\<close> in the console variant)
  followed by the timestamp text of the call's first clock reading; the ids of two calls
  differ exactly when those timestamp texts differ.
\<close>

theorem ids_follow_the_clock:
  "fst (add_conversation now u a r m) = ''conv_'' @ now_timestamp (now 0)
   \<and> fst (remember_conversation now u a r m) = ''mem_'' @ now_timestamp (now 0)
   \<and> ((fst (add_conversation now1 u1 a1 r1 m1) \<noteq> fst (add_conversation now2 u2 a2 r2 m2)) =
        (now_timestamp (now1 0) \<noteq> now_timestamp (now2 0)))
   \<and> ((fst (remember_conversation now1 u1 a1 r1 m1) \<noteq>
         fst (remember_conversation now2 u2 a2 r2 m2)) =
        (now_timestamp (now1 0) \<noteq> now_timestamp (now2 0)))"
  by (simp add: add_conversation_def remember_conversation_def Let_def)

theorem ids_follow_the_clock_witness:
  "fst (add_conversation clk0 ''Hello'' ''Hi there'' (Some 5) mem0) = ''conv_1700000000.5''
   \<and> fst (add_conversation clk0 ''Hello'' ''Hi there'' (Some 5) mem0) \<noteq>
       fst (add_conversation clk1 ''Hello'' ''Hi there'' (Some 5)
              (snd (add_conversation clk0 ''Hello'' ''Hi there'' (Some 5) mem0)))
   \<and> fst (remember_conversation clk0 ''Hello'' ''Hi there'' (Some 5) mem0) \<noteq>
       fst (remember_conversation clk1 ''Hello'' ''Hi there'' (Some 5)
              (snd (remember_conversation clk0 ''Hello'' ''Hi there'' (Some 5) mem0)))"
proof -
  have t: "now_timestamp (clk0 0) = ''1700000000.5''" "now_timestamp (clk1 0) = ''1700000060.25''"
    by (simp_all add: clk0_def clk1_def)
  show ?thesis
    using ids_follow_the_clock [of clk0 "''Hello''" "''Hi there''" "Some 5" mem0 
        clk0 "''Hello''" "''Hi there''" "Some 5" mem0
        clk1 "''Hello''" "''Hi there''" "Some 5"
        "snd (add_conversation clk0 ''Hello'' ''Hi there'' (Some 5) mem0)"]
     ids_follow_the_clock [of clk0 "''Hello''" "''Hi there''" "Some 5" mem0 
        clk0 "''Hello''" "''Hi there''" "Some 5" mem0
        clk1 "''Hello''" "''Hi there''" "Some 5"
        "snd (remember_conversation clk0 ''Hello'' ''Hi there'' (Some 5) mem0)"] t
    by (simp add: add_conversation_def remember_conversation_def Let_def)
qed

subsection \<open>Recall\<close>

lemma length_memories_of: "length (memories_of docs metas) = min (length docs) (length metas)"
  by (simp add: memories_of_def)

lemma search_memory_recall: "search_memory = recall"
  by (intro ext) (simp add: search_memory_def recall_def)

lemma recall_empty: "conversations self = [] \<Longrightarrow> recall qry self q n = Inr []"
  by (simp add: recall_def count_def)

text \<open>A list that \<open>recall\<close> returns is empty or made from the first inner lists of a
  query result for \<^verbatim>\<open>min(n_results, count)\<close>.\<close>

lemma recall_Inr:
  assumes "recall qry self q n = Inr ms"
  shows "ms = [] \<or>
         (\<exists>r docs0 rest metas0 rest'.
            qry (conversations self) q (min n (int (count (conversations self)))) = Inr r \<and>
            documents r = Some (docs0 # rest) \<and> metadatas r = Some (metas0 # rest') \<and>
            ms = memories_of docs0 metas0)"
  using assms
  by (auto simp: recall_def split: if_splits sum.splits option.splits list.splits)

lemma recall_length:
  assumes c: "at_most_n_results qry" and r: "recall qry self q n = Inr ms"
  shows "length ms \<le> nat (min n (int (count (conversations self))))"
proof -
  from recall_Inr [OF r] show ?thesis
  proof
    assume "ms = []"
    then show ?thesis by simp
  next
    assume "\<exists>r docs0 rest metas0 rest'.
            qry (conversations self) q (min n (int (count (conversations self)))) = Inr r \<and>
            documents r = Some (docs0 # rest) \<and> metadatas r = Some (metas0 # rest') \<and>
            ms = memories_of docs0 metas0"
    then obtain r docs0 rest metas0 where
      q: "qry (conversations self) q (min n (int (count (conversations self)))) = Inr r"
      and d: "documents r = Some (docs0 # rest)" and m: "ms = memories_of docs0 metas0"
      by blast
    from c q d have "int (length docs0) \<le> min n (int (count (conversations self)))"
      unfolding at_most_n_results_def by blast
    moreover have "length ms \<le> length docs0"
      using m by (simp add: length_memories_of)
    ultimately show ?thesis by linarith
  qed
qed

lemma recall_returns:
  assumes "qry (conversations self) q (min n (int (count (conversations self)))) = Inr r"
    and "metadatas r = Some (metas0 # rest')"
  shows "\<exists>ms. recall qry self q n = Inr ms"
  using assms
  by (auto simp: recall_def split: if_splits sum.splits option.splits list.splits)

lemma first_k_at_most: "at_most_n_results first_k"
  by (auto simp: at_most_n_results_def first_k_def split: if_splits)

text \<open>
  Claim C4. On an empty conversation store \<open>recall\<close> and \<open>search_memory\<close> return
  the empty list without issuing the query, so nothing can be raised. On any store, for
  every query text and every limit, a list that is returned has at most
  \<^verbatim>\<open>min(limit, count)\<close> entries (none when that bound is not positive), provided the
  query returns no more documents than it is asked for; and when the query answers with
  metadata, a list is returned.
\<close>

theorem recall_bounded:
  "(conversations self = [] \<longrightarrow>
      recall qry self q n = Inr [] \<and> search_memory qry self q n = Inr [])
   \<and> (at_most_n_results qry \<longrightarrow> recall qry self q n = Inr ms \<longrightarrow>
        length ms \<le> nat (min n (int (count (conversations self)))))
   \<and> (at_most_n_results qry \<longrightarrow> search_memory qry self q n = Inr ms \<longrightarrow>
        length ms \<le> nat (min n (int (count (conversations self)))))
   \<and> (qry (conversations self) q (min n (int (count (conversations self)))) = Inr r \<longrightarrow>
        metadatas r = Some (metas0 # rest) \<longrightarrow>
        (\<exists>ms'. recall qry self q n = Inr ms' \<and> search_memory qry self q n = Inr ms'))"
  using recall_empty [of self qry q n] recall_length [of qry self q n ms]
    recall_returns [of qry self q n r metas0 rest]
  by (auto simp: search_memory_recall)

theorem recall_bounded_witness:
  "recall first_k mem0 ''anything'' 3 = Inr []
   \<and> search_memory first_k mem0 ''anything'' 5 = Inr []
   \<and> at_most_n_results first_k
   \<and> map mem_rating (projr (recall first_k mem3 ''a'' 2)) = [Some ''5'', Some ''2'']
   \<and> length (projr (recall first_k mem3 ''a'' 2)) \<le> nat (min 2 (int (count (conversations mem3))))
   \<and> length (projr (search_memory first_k mem3 ''a'' 5)) = 3"
proof -
  have e: "conversations mem0 = []"
    by (simp add: mem0_def)
  have r: "recall first_k mem3 ''a'' 2 =
      Inr (memories_of (map document (take 2 (conversations mem3)))
             (map entry_metadata (take 2 (conversations mem3))))"
    by (simp add: mem3_def recall_def first_k_def remember_conversations mem0_def count_def)
  have s: "search_memory first_k mem3 ''a'' 5 =
      Inr (memories_of (map document (take 3 (conversations mem3)))
             (map entry_metadata (take 3 (conversations mem3))))"
    by (simp add: mem3_def search_memory_def first_k_def remember_conversations mem0_def count_def)
  have t: "map mem_rating (memories_of (map document (take 2 (conversations mem3)))
             (map entry_metadata (take 2 (conversations mem3)))) = [Some ''5'', Some ''2'']"
    by (simp add: mem3_def remember_conversations mem0_def memories_of_def rating_text_def
        str_int_def str_nat.simps digit_char_def)
  show ?thesis
    using recall_bounded [of mem0 first_k "''anything''" 3]
      recall_bounded [of mem0 first_k "''anything''" 5]
      recall_bounded [of mem3 first_k "''a''" 2 "projr (recall first_k mem3 ''a'' 2)"]
      e r s t first_k_at_most
    by (simp add: length_memories_of mem3_def remember_conversations mem0_def)
qed


subsection \<open>The size of the context block\<close>

lemma length_join:
  "length (join sep (x # xs)) = length x + (\<Sum>y\<leftarrow>xs. length sep + length y)"
  by (induction xs arbitrary: x) simp_all

lemma sum_list_le:
  fixes f :: "'a \<Rightarrow> nat"
  assumes "\<And>y. y \<in> set ys \<Longrightarrow> f y \<le> b"
  shows "(\<Sum>y\<leftarrow>ys. f y) \<le> length ys * b"
  using assms by (induction ys) (simp_all add: add_mono)

lemma length_str_nat_digit: "n < 10 \<Longrightarrow> length (str_nat n) = 1"
  by (simp add: str_nat.simps)

lemma length_memory_block:
  assumes "fst im < 10" and "length (fstr (mem_rating (snd im))) \<le> 7"
  shows "length (memory_block im) \<le> 430"
  using assms by (simp add: memory_block_def nl_def length_str_nat_digit)

lemma length_interaction_block:
  assumes "fst im < 10" and "length (fstr (mem_timestamp (snd im))) \<le> 26"
  shows "length (interaction_block im) \<le> 336"
  using assms by (simp add: interaction_block_def nl_def length_str_nat_digit)

lemma memories_of_meta:
  assumes "m \<in> set (memories_of docs metas)"
  shows "\<exists>meta \<in> set metas. mem_rating m = meta ''rating'' \<and> mem_timestamp m = meta ''timestamp''"
  using assms by (auto simp: memories_of_def dest: set_zip_rightD)

text \<open>What is recalled carries the rating and the timestamp of a stored entry.\<close>

lemma recall_stored:
  assumes s: "returns_stored qry" and r: "recall qry self q n = Inr ms" and m: "m \<in> set ms"
  shows "\<exists>e \<in> set (conversations self).
           mem_rating m = entry_metadata e ''rating'' \<and>
           mem_timestamp m = entry_metadata e ''timestamp''"
proof -
  from recall_Inr [OF r] m obtain res docs0 metas0 rest' where
    q: "qry (conversations self) q (min n (int (count (conversations self)))) = Inr res"
    and md: "metadatas res = Some (metas0 # rest')" and ms: "ms = memories_of docs0 metas0"
    by auto
  from memories_of_meta m ms obtain meta where
    meta: "meta \<in> set metas0" "mem_rating m = meta ''rating''" "mem_timestamp m = meta ''timestamp''"
    by blast
  from s q md have "set metas0 \<subseteq> entry_metadata ` set (conversations self)"
    unfolding returns_stored_def by blast
  with meta show ?thesis by auto
qed

lemma enumerate_1_bound:
  assumes "im \<in> set (enumerate 1 ms)" and "length ms \<le> 3"
  shows "fst im < 10 \<and> snd im \<in> set ms"
proof -
  obtain i m where im: "im = (i, m)" by (cases im)
  with assms show ?thesis by (auto simp: in_set_enumerate_eq)
qed

lemma context_length:
  fixes blocks :: "string list"
  assumes "length blocks \<le> 3" and "\<And>b. b \<in> set blocks \<Longrightarrow> length b \<le> k"
  shows "length (join nl (p # (if c then [] else h # blocks)))
         \<le> length p + (1 + length h) + 3 * (1 + k)"
proof -
  have "(\<Sum>y\<leftarrow>blocks. length nl + length y) \<le> length blocks * (1 + k)"
    using assms(2) by (intro sum_list_le) (simp add: nl_def)
  also have "\<dots> \<le> 3 * (1 + k)"
    using assms(1) by (rule mult_le_mono1)
  finally show ?thesis
    by (simp add: length_join nl_def)
qed

lemma build_context_length:
  assumes a: "at_most_n_results (query ex)" and s: "returns_stored (query ex)"
    and w: "ratings_short (conversations (memory g))"
    and c: "build_context ex g um = Inr ctx"
  shows "length ctx \<le> length (dumps ex (profile (user_profile g))) + 1327"
proof -
  from c obtain ms where r: "recall (query ex) (memory g) um 3 = Inr ms"
    and ctx: "ctx = join nl ((''USER PROFILE:'' @ nl @ dumps ex (profile (user_profile g))) #
                 (if ms = [] then []
                  else (nl @ ''RELEVANT MEMORIES:'') # map memory_block (enumerate 1 ms)))"
    by (auto simp: build_context_def split: sum.splits)
  have l: "length ms \<le> 3"
    using recall_length [OF a r] by simp
  have b: "length b \<le> 430" if "b \<in> set (map memory_block (enumerate 1 ms))" for b
  proof -
    from that obtain im where im: "im \<in> set (enumerate 1 ms)" "b = memory_block im"
      by auto
    from enumerate_1_bound [OF im(1) l] have i: "fst im < 10" and m: "snd im \<in> set ms"
      by simp_all
    from recall_stored [OF s r m] w have "length (fstr (mem_rating (snd im))) \<le> 7"
      by (auto simp: ratings_short_def list_all_iff)
    with i im(2) show ?thesis by (simp add: length_memory_block)
  qed
  have "length (map memory_block (enumerate 1 ms)) \<le> 3"
    using l by simp
  from context_length [OF this b, where p = "''USER PROFILE:'' @ nl @ dumps ex (profile (user_profile g))"
      and h = "nl @ ''RELEVANT MEMORIES:''" and c = "ms = []"]
  show ?thesis
    unfolding ctx by (simp add: nl_def)
qed

lemma web_build_context_length:
  assumes a: "at_most_n_results (query ex)" and s: "returns_stored (query ex)"
    and w: "timestamps_short (conversations (web_memory g))"
    and c: "web_build_context ex g um = Inr ctx"
  shows "length ctx \<le> length (dumps ex (profile (web_profile g))) + 1054"
proof -
  from c obtain ms where r: "recall (query ex) (web_memory g) um 3 = Inr ms"
    and ctx: "ctx = join nl ((''User Profile: '' @ dumps ex (profile (web_profile g))) #
                 (if ms = [] then []
                  else (nl @ ''Relevant past interactions:'') # map interaction_block (enumerate 1 ms)))"
    by (auto simp: web_build_context_def search_memory_recall split: sum.splits)
  have l: "length ms \<le> 3"
    using recall_length [OF a r] by simp
  have b: "length b \<le> 336" if "b \<in> set (map interaction_block (enumerate 1 ms))" for b
  proof -
    from that obtain im where im: "im \<in> set (enumerate 1 ms)" "b = interaction_block im"
      by auto
    from enumerate_1_bound [OF im(1) l] have i: "fst im < 10" and m: "snd im \<in> set ms"
      by simp_all
    from recall_stored [OF s r m] w have "length (fstr (mem_timestamp (snd im))) \<le> 26"
      by (auto simp: timestamps_short_def list_all_iff)
    with i im(2) show ?thesis by (simp add: length_interaction_block)
  qed
  have "length (map interaction_block (enumerate 1 ms)) \<le> 3"
    using l by simp
  from context_length [OF this b, where p = "''User Profile: '' @ dumps ex (profile (web_profile g))"
      and h = "nl @ ''Relevant past interactions:''" and c = "ms = []"]
  show ?thesis
    unfolding ctx by (simp add: nl_def)
qed

lemma length_rating_text: "1 \<le> r \<Longrightarrow> r \<le> 5 \<Longrightarrow> length (rating_text (Some r)) = 1"
  by (simp add: rating_text_def str_int_def length_str_nat_digit)

lemma rate_ratings_short:
  assumes "1 \<le> r" and "r \<le> 5" and "ratings_short (conversations (memory g))"
  shows "ratings_short (conversations (memory (snd (rate now r g))))"
proof (cases "2 \<le> length (session g)")
  case True
  from rate_memory(1) [OF True, of now r] assms show ?thesis
    by (simp add: ratings_short_def fstr_def length_rating_text)
next
  case False
  with assms(3) show ?thesis by (simp add: rate_def)
qed

lemma rate_last_timestamps_short:
  assumes "length (now_isoformat (now 1)) \<le> 26"
    and "timestamps_short (conversations (web_memory w))"
  shows "timestamps_short (conversations (web_memory (snd (rate_last_response now r sid w))))"
proof (cases "2 \<le> length (window w sid)")
  case True
  from rate_last_memory(1) [OF True, of now r] assms show ?thesis
    by (simp add: timestamps_short_def fstr_def)
next
  case False
  with assms(2) show ?thesis
    by (auto simp: rate_last_response_def get_session_def window_def split: option.splits)
qed

lemma talk_memory: "memory (snd (talk ex um g)) = memory g"
  using talk_cases [of ex um g] by auto

lemma chat_memory: "web_memory (snd (chat ex um sid use w)) = web_memory w"
  using chat_cases [of ex um sid use w] by auto

text \<open>
  Claim C7. The context block is never longer than the serialized profile plus 1327
  characters in the console variant (14 for the profile label, 20 for the header, and
  three blocks of at most 431: 400 of content and 31 of numbering, rating and
  separators), and the serialized profile plus 1054 characters in the HTTP variant
  (blocks of at most 337: 300 of content). The bound does not mention the number of
  stored conversations. It holds whenever the query keeps to the requested number of
  results and returns stored metadata, and the stored labels are as the program writes
  them; that last condition is kept by every rating of 1 to 5 and by every turn.
\<close>

theorem context_bounded:
  "(at_most_n_results (query ex) \<longrightarrow> returns_stored (query ex) \<longrightarrow>
      ratings_short (conversations (memory g)) \<longrightarrow> build_context ex g um = Inr ctx \<longrightarrow>
      length ctx \<le> length (dumps ex (profile (user_profile g))) + 1327)
   \<and> (at_most_n_results (query ex) \<longrightarrow> returns_stored (query ex) \<longrightarrow>
      timestamps_short (conversations (web_memory w)) \<longrightarrow>
      web_build_context ex w um = Inr ctx \<longrightarrow>
      length ctx \<le> length (dumps ex (profile (web_profile w))) + 1054)
   \<and> (1 \<le> r \<longrightarrow> r \<le> 5 \<longrightarrow> ratings_short (conversations (memory g)) \<longrightarrow>
        ratings_short (conversations (memory (snd (rate now r g)))))
   \<and> memory (snd (talk ex um g)) = memory g
   \<and> (length (now_isoformat (now 1)) \<le> 26 \<longrightarrow>
        timestamps_short (conversations (web_memory w)) \<longrightarrow>
        timestamps_short (conversations (web_memory (snd (rate_last_response now r sid w)))))
   \<and> web_memory (snd (chat ex um sid use w)) = web_memory w"
  using build_context_length [of ex g um ctx] web_build_context_length [of ex w um ctx]
    rate_ratings_short [of r g now] rate_last_timestamps_short [of now w r sid]
  by (simp add: talk_memory chat_memory)

lemma first_k_stored: "returns_stored first_k"
  by (auto simp: returns_stored_def first_k_def split: if_splits dest: in_set_takeD)

lemmas store_defs =
  mem4_def mem3_def web_mem4_def mem0_def remember_conversations add_conversation_conversations
  rating_text_def str_int_def str_nat.simps digit_char_def fstr_def clk0_def clk1_def

theorem context_bounded_witness:
  "at_most_n_results (query svc_up) \<and> returns_stored (query svc_up)
   \<and> count (conversations mem4) = 4 \<and> ratings_short (conversations mem4)
   \<and> length (projr (build_context svc_up (ghost0\<lparr>memory := mem4\<rparr>) ''a''))
       \<le> length (dumps svc_up (profile (user_profile ghost0))) + 1327
   \<and> timestamps_short (conversations web_mem4)
   \<and> length (projr (web_build_context svc_up (web0\<lparr>web_memory := web_mem4\<rparr>) ''a''))
       \<le> length (dumps svc_up (profile (web_profile web0))) + 1054
   \<and> ratings_short (conversations (memory (snd (rate clk0 5 (ghost_full\<lparr>memory := mem4\<rparr>)))))"
proof -
  have q: "at_most_n_results (query svc_up)" "returns_stored (query svc_up)"
    by (simp_all add: svc_up_def first_k_at_most first_k_stored)
  have n: "count (conversations mem4) = 4"
    by (simp add: count_def store_defs)
  have s: "ratings_short (conversations mem4)"
    by (simp add: ratings_short_def store_defs)
  have t: "timestamps_short (conversations web_mem4)"
    by (simp add: timestamps_short_def store_defs)
  have r: "recall first_k mem4 ''a'' 3 =
      Inr (memories_of (map document (take 3 (conversations mem4)))
             (map entry_metadata (take 3 (conversations mem4))))"
    by (simp add: mem4_def mem3_def recall_def first_k_def remember_conversations mem0_def count_def)
  have b: "build_context svc_up (ghost0\<lparr>memory := mem4\<rparr>) ''a'' =
      Inr (projr (build_context svc_up (ghost0\<lparr>memory := mem4\<rparr>) ''a''))"
    by (simp add: build_context_def svc_up_def r)
  have wr: "search_memory first_k web_mem4 ''a'' 3 =
      Inr (memories_of (map document (take 3 (conversations web_mem4)))
             (map entry_metadata (take 3 (conversations web_mem4))))"
    by (simp add: web_mem4_def search_memory_def first_k_def add_conversation_conversations
        mem0_def count_def)
  have wb: "web_build_context svc_up (web0\<lparr>web_memory := web_mem4\<rparr>) ''a'' =
      Inr (projr (web_build_context svc_up (web0\<lparr>web_memory := web_mem4\<rparr>) ''a''))"
    by (simp add: web_build_context_def svc_up_def wr)
  show ?thesis
    using context_bounded [of svc_up "ghost0\<lparr>memory := mem4\<rparr>" "''a''"
        "projr (build_context svc_up (ghost0\<lparr>memory := mem4\<rparr>) ''a'')"
        "web0\<lparr>web_memory := web_mem4\<rparr>" 5 clk0 "''default''" True]
      context_bounded [of svc_up "ghost_full\<lparr>memory := mem4\<rparr>" "''a''"
        "projr (web_build_context svc_up (web0\<lparr>web_memory := web_mem4\<rparr>) ''a'')"
        "web0\<lparr>web_memory := web_mem4\<rparr>" 5 clk0 "''default''" True]
      q n s t b wb
    by (simp add: ghost0_def web0_def)
qed

end
